theory Spec2Isabelle
  imports Complex_Main "HOL-Library.Log_Nat" "HOL-Library.Sublist" "HOL-Library.Multiset"
begin

section \<open>Python values used by the agent\<close>

subsection \<open>Strings\<close>

text \<open>
  A Python \<^verbatim>\<open>str\<close> is modelled as a HOL \<^typ>\<open>string\<close>: a character is a code point
  below 256, and the length of a string is its number of characters, as in Python.
  \<^verbatim>\<open>str.lower()\<close> maps \<^verbatim>\<open>A\<close>..\<^verbatim>\<open>Z\<close> to \<^verbatim>\<open>a\<close>..\<^verbatim>\<open>z\<close> and the capital letters of
  Latin-1 (code points 192 to 222, apart from the multiplication sign 215) to their small
  letters, 32 code points further; it leaves every other character of this range as it is.
  Texts with characters beyond Latin-1 are outside the model.
\<close>

definition lower_char :: "char \<Rightarrow> char" where
  "lower_char c =
     (let n = (of_char c :: nat)
      in if (65 \<le> n \<and> n \<le> 90) \<or> (192 \<le> n \<and> n \<le> 222 \<and> n \<noteq> 215)
         then char_of (n + 32) else c)"

definition lower :: "string \<Rightarrow> string" where
  "lower s = map lower_char s"

text \<open>\<^verbatim>\<open>needle in hay\<close> for strings: \<^verbatim>\<open>needle\<close> occurs as a contiguous substring.\<close>

fun contains :: "string \<Rightarrow> string \<Rightarrow> bool" where
  "contains needle [] = (needle = [])"
| "contains needle (c # cs) = (prefix needle (c # cs) \<or> contains needle cs)"

text \<open>\<^verbatim>\<open>any(k in s for k in ks)\<close>.\<close>

definition any_in :: "string list \<Rightarrow> string \<Rightarrow> bool" where
  "any_in ks s = list_ex (\<lambda>k. contains k s) ks"

text \<open>\<^verbatim>\<open>str(n)\<close> for an \<^verbatim>\<open>int\<close> that is not negative.\<close>

definition digit_char :: "nat \<Rightarrow> char" where
  "digit_char d = char_of (48 + d)"

fun str_nat :: "nat \<Rightarrow> string" where
  "str_nat n = (if n < 10 then [digit_char n] else str_nat (n div 10) @ [digit_char (n mod 10)])"

subsection \<open>Floats\<close>

text \<open>
  A Python \<^verbatim>\<open>float\<close> is an IEEE 754 binary64 number. A finite one is modelled by its exact
  value, a rational; every operation computes the exact result and rounds it to 53
  significant bits, ties to even, as the hardware does. The exponent is not bounded in
  \<open>round_double\<close>: no operation of the agent produces a subnormal number, and the only
  place where a value can leave the range, the conversion of an \<^verbatim>\<open>int\<close>, raises
  \<^verbatim>\<open>OverflowError\<close> in Python and is modelled so (\<open>float_of_int\<close>).
\<close>

type_synonym pyfloat = rat

text \<open>\<open>floor_log2 x\<close> is the \<open>k\<close> with \<open>2 powi k \<le> x < 2 powi (k + 1)\<close>, for \<open>0 < x\<close>.\<close>

definition floor_log2 :: "rat \<Rightarrow> int" where
  "floor_log2 x =
     (case quotient_of x of
        (p, q) \<Rightarrow> let d = bitlen p - bitlen q in if 2 powi d \<le> x then d else d - 1)"

definition round_half_even :: "rat \<Rightarrow> int" where
  "round_half_even x =
     (let n = \<lfloor>x\<rfloor>; r = x - of_int n
      in if r < 1 / 2 then n else if 1 / 2 < r then n + 1 else if even n then n else n + 1)"

definition round_double :: "rat \<Rightarrow> pyfloat" where
  "round_double x =
     (if x = 0 then 0
      else let e = floor_log2 \<bar>x\<bar> - 52
           in of_int (round_half_even (x / 2 powi e)) * 2 powi e)"

text \<open>A decimal literal of the source text, such as \<^verbatim>\<open>0.3\<close>, denotes the nearest double.\<close>

definition float_lit :: "rat \<Rightarrow> pyfloat" where
  "float_lit x = round_double x"

definition fadd :: "pyfloat \<Rightarrow> pyfloat \<Rightarrow> pyfloat" where
  "fadd a b = round_double (a + b)"

definition fmul :: "pyfloat \<Rightarrow> pyfloat \<Rightarrow> pyfloat" where
  "fmul a b = round_double (a * b)"

text \<open>\<^verbatim>\<open>min(a, b)\<close> returns its first argument unless the second is smaller.\<close>

definition py_min :: "pyfloat \<Rightarrow> pyfloat \<Rightarrow> pyfloat" where
  "py_min a b = (if b < a then b else a)"

text \<open>
  Exceptions are values. \<open>PyException msg\<close> is an instance of \<^verbatim>\<open>Exception\<close> whose
  \<^verbatim>\<open>str(e)\<close> is \<open>msg\<close>; \<open>PyUnprintable ex\<close> is an instance of \<^verbatim>\<open>Exception\<close> whose
  \<^verbatim>\<open>str(e)\<close> raises \<open>ex\<close>; \<open>PyBaseException msg\<close> is an exception that derives from
  \<^verbatim>\<open>BaseException\<close> only (\<^verbatim>\<open>KeyboardInterrupt\<close>, \<^verbatim>\<open>SystemExit\<close>), which
  \<^verbatim>\<open>except Exception\<close> does not catch.
\<close>

datatype py_exn = PyException string | PyUnprintable py_exn | PyBaseException string

definition OverflowError :: py_exn where
  "OverflowError = PyException ''int too large to convert to float''"

text \<open>
  The conversion of an \<^verbatim>\<open>int\<close> operand in \<^verbatim>\<open>n * 0.3\<close>: rounded to the nearest double,
  \<^verbatim>\<open>OverflowError\<close> when that is beyond the largest double.
\<close>

definition float_of_int :: "int \<Rightarrow> py_exn + pyfloat" where
  "float_of_int n =
     (let r = round_double (of_int n) in if 2 ^ 1024 \<le> \<bar>r\<bar> then Inl OverflowError else Inr r)"

text \<open>
  \<^verbatim>\<open>f"{x:.2f}"\<close>: the exact value rounded to two decimals, ties to even, written with
  all digits of the integer part.
\<close>

definition two_digits :: "nat \<Rightarrow> string" where
  "two_digits n = [digit_char (n div 10 mod 10), digit_char (n mod 10)]"

definition format_2f :: "pyfloat \<Rightarrow> string" where
  "format_2f x =
     (let h = nat (round_half_even (\<bar>x\<bar> * 100))
      in (if x < 0 then ''-'' else '''') @ str_nat (h div 100) @ ''.'' @ two_digits (h mod 100))"

section \<open>The URL priority scorer\<close>

text \<open>
  A grounding source is the dict with the keys \<^verbatim>\<open>title\<close>, \<^verbatim>\<open>url\<close> and \<^verbatim>\<open>snippet\<close> that
  \<^verbatim>\<open>content_enhancement_analysis\<close> builds; all three keys are present, so the defaults of
  \<^verbatim>\<open>source.get\<close> are never taken.
\<close>

record source =
  title :: string
  url :: string
  snippet :: string

text \<open>\<^verbatim>\<open>ContentEnhancementDecisionMaker._calculate_url_priority\<close>.\<close>

definition calculate_url_priority :: "source \<Rightarrow> pyfloat" where
  "calculate_url_priority src =
     (let score0 = float_lit 0;
          u = lower (url src);
          t = lower (title src);
          score1 = (if any_in [''.gov'', ''.edu'', ''.org''] u
                    then fadd score0 (float_lit (4 / 10)) else score0);
          score2 = (if any_in [''wikipedia'', ''arxiv'', ''ieee'', ''acm''] u
                    then fadd score1 (float_lit (3 / 10)) else score1);
          score3 = (if any_in [''report'', ''study'', ''research'', ''analysis'', ''technical''] t
                    then fadd score2 (float_lit (2 / 10)) else score2);
          score4 = (if any_in [''google'', ''microsoft'', ''amazon'', ''tesla'', ''nvidia''] u
                    then fadd score3 (float_lit (2 / 10)) else score3);
          score5 = fadd score4 (float_lit (1 / 10))
      in py_min score5 (float_lit 1))"

text \<open>
  The score as claim C1 words it: the base \<open>0.1\<close> first, then the bonus of each rule that
  applies, in double arithmetic, capped at \<open>1.0\<close>.
\<close>

definition claimed_url_priority :: "source \<Rightarrow> pyfloat" where
  "claimed_url_priority src =
     (let u = lower (url src);
          t = lower (title src);
          s0 = float_lit (1 / 10);
          s1 = (if any_in [''.gov'', ''.edu'', ''.org''] u then fadd s0 (float_lit (4 / 10)) else s0);
          s2 = (if any_in [''wikipedia'', ''arxiv'', ''ieee'', ''acm''] u
                then fadd s1 (float_lit (3 / 10)) else s1);
          s3 = (if any_in [''report'', ''study'', ''research'', ''analysis'', ''technical''] t
                then fadd s2 (float_lit (2 / 10)) else s2);
          s4 = (if any_in [''google'', ''microsoft'', ''amazon'', ''tesla'', ''nvidia''] u
                then fadd s3 (float_lit (2 / 10)) else s3)
      in py_min s4 (float_lit 1))"

text \<open>The same sum in exact decimal arithmetic.\<close>

definition exact_url_priority :: "source \<Rightarrow> rat" where
  "exact_url_priority src =
     (let u = lower (url src);
          t = lower (title src)
      in min (1 / 10
              + (if any_in [''.gov'', ''.edu'', ''.org''] u then 4 / 10 else 0)
              + (if any_in [''wikipedia'', ''arxiv'', ''ieee'', ''acm''] u then 3 / 10 else 0)
              + (if any_in [''report'', ''study'', ''research'', ''analysis'', ''technical''] t
                 then 2 / 10 else 0)
              + (if any_in [''google'', ''microsoft'', ''amazon'', ''tesla'', ''nvidia''] u
                 then 2 / 10 else 0))
             1)"

section \<open>The enhancement decision\<close>

text \<open>An entry of \<^verbatim>\<open>priority_urls\<close>: the dict with the keys \<^verbatim>\<open>title\<close>, \<^verbatim>\<open>url\<close>,
  \<^verbatim>\<open>priority_score\<close> and \<^verbatim>\<open>reasoning\<close>.\<close>

record priority_url =
  pu_title :: string
  pu_url :: string
  priority_score :: pyfloat
  pu_reasoning :: string

text \<open>The dataclass \<^verbatim>\<open>EnhancementDecision\<close>.\<close>

record EnhancementDecision =
  needs_enhancement :: bool
  priority_urls :: "priority_url list"
  reasoning :: string
  confidence_score :: pyfloat
  enhancement_type :: string

subsection \<open>The confidence pattern\<close>

text \<open>
  \<^verbatim>\<open>re.search(r'confidence.*?([0-9]\.[0-9])', decision_text)\<close>. The search tries every
  start position from the left; at a position where \<^verbatim>\<open>confidence\<close> matches, the lazy
  \<^verbatim>\<open>.*?\<close> skips as few characters as possible, none of them a newline, until a digit, a
  dot and a digit follow. The result is the text of group 1.
\<close>

definition is_digit :: "char \<Rightarrow> bool" where
  "is_digit c = (let n = (of_char c :: nat) in 48 \<le> n \<and> n \<le> 57)"

fun match_decimal :: "string \<Rightarrow> string option" where
  "match_decimal (a # b # c # rest) =
     (if is_digit a \<and> b = CHR ''.'' \<and> is_digit c then Some [a, b, c] else None)"
| "match_decimal s = None"

fun lazy_decimal :: "string \<Rightarrow> string option" where
  "lazy_decimal [] = None"
| "lazy_decimal (c # cs) =
     (case match_decimal (c # cs) of
        Some g \<Rightarrow> Some g
      | None \<Rightarrow> if c = CHR 0x0A then None else lazy_decimal cs)"

fun search_confidence :: "string \<Rightarrow> string option" where
  "search_confidence [] = None"
| "search_confidence (c # cs) =
     (if prefix ''confidence'' (c # cs)
      then (case lazy_decimal (drop 10 (c # cs)) of
              Some g \<Rightarrow> Some g
            | None \<Rightarrow> search_confidence cs)
      else search_confidence cs)"

text \<open>
  \<^verbatim>\<open>float(s)\<close> on the text of group 1, a digit, a dot and a digit: the double nearest to
  that decimal. Nothing else reaches the call; any other text is modelled as the
  \<^verbatim>\<open>ValueError\<close> branch.
\<close>

definition digit_val :: "char \<Rightarrow> nat" where
  "digit_val c = of_char c - 48"

definition py_float :: "string \<Rightarrow> py_exn + pyfloat" where
  "py_float s =
     (case match_decimal s of
        Some [a, b, c] \<Rightarrow>
          if length s = 3
          then Inr (round_double (of_nat (digit_val a) + of_nat (digit_val c) / 10))
          else Inl (PyException ''could not convert string to float'')
      | _ \<Rightarrow> Inl (PyException ''could not convert string to float''))"

subsection \<open>Sorting\<close>

text \<open>
  \<^verbatim>\<open>xs.sort(key=key, reverse=True)\<close>: a stable sort by descending key, elements with equal
  keys keep their order.
\<close>

fun insert_desc :: "('a \<Rightarrow> pyfloat) \<Rightarrow> 'a \<Rightarrow> 'a list \<Rightarrow> 'a list" where
  "insert_desc key x [] = [x]"
| "insert_desc key x (y # ys) =
     (if key y \<le> key x then x # y # ys else y # insert_desc key x ys)"

definition sort_reverse :: "('a \<Rightarrow> pyfloat) \<Rightarrow> 'a list \<Rightarrow> 'a list" where
  "sort_reverse key xs = foldr (insert_desc key) xs []"

subsection \<open>Parsing the reply of the language model\<close>

text \<open>\<^verbatim>\<open>ContentEnhancementDecisionMaker._parse_llm_decision\<close>.\<close>

definition priority_entry :: "source \<times> pyfloat \<Rightarrow> priority_url" where
  "priority_entry p =
     (case p of (src, score) \<Rightarrow>
        \<lparr>pu_title = title src, pu_url = url src, priority_score = score,
         pu_reasoning = ''Score: '' @ format_2f score\<rparr>)"

definition parse_llm_decision :: "string \<Rightarrow> source list \<Rightarrow> EnhancementDecision" where
  "parse_llm_decision decision_text0 grounding_sources =
     (let decision_text = lower decision_text0;
          needs = (contains ''enhance'' decision_text \<and> \<not> contains ''no_enhance'' decision_text);
          confidence =
            (case search_confidence decision_text of
               None \<Rightarrow> float_lit (5 / 10)
             | Some g \<Rightarrow> (case py_float g of Inr v \<Rightarrow> v | Inl e \<Rightarrow> float_lit (5 / 10)));
          etype =
            (if contains ''selective'' decision_text then ''selective''
             else if contains ''comprehensive'' decision_text then ''comprehensive''
             else if needs then ''selective''
             else ''none'');
          priority =
            (if needs \<and> grounding_sources \<noteq> []
             then let scored_sources = map (\<lambda>src. (src, calculate_url_priority src)) grounding_sources;
                      sorted_sources = sort_reverse snd scored_sources;
                      max_urls = (if etype = ''comprehensive'' then 3 else 2 :: nat)
                  in map priority_entry
                       (filter (\<lambda>p. float_lit (3 / 10) < snd p) (take max_urls sorted_sources))
             else [])
      in \<lparr>needs_enhancement = needs, priority_urls = priority, reasoning = decision_text,
          confidence_score = confidence, enhancement_type = etype\<rparr>)"

subsection \<open>The analysis prompt and the call of the language model\<close>

definition newline :: string where
  "newline = [CHR 0x0A]"

text \<open>\<^verbatim>\<open>sep.join(xs)\<close>.\<close>

fun join :: "string \<Rightarrow> string list \<Rightarrow> string" where
  "join sep [] = []"
| "join sep [x] = x"
| "join sep (x # y # ys) = x @ sep @ join sep (y # ys)"

text \<open>\<^verbatim>\<open>xs[-n:]\<close> for a positive \<open>n\<close>: the last \<open>n\<close> elements, all of them when there are fewer.\<close>

definition last_n :: "nat \<Rightarrow> 'a list \<Rightarrow> 'a list" where
  "last_n n xs = drop (length xs - n) xs"

definition prompt_rubric :: string where
  "prompt_rubric =
     newline
     @ newline
     @ ''Evaluation Criteria:'' @ newline
     @ newline
     @ ''1. **Signals of Insufficient Depth**:'' @ newline
     @ ''   - Lack of specific data, statistics, case studies'' @ newline
     @ ''   - Vague descriptions, missing technical details'' @ newline
     @ ''   - Missing key companies/projects/implementations'' @ newline
     @ ''   - Low-quality sources (non-authoritative)'' @ newline
     @ newline
     @ ''2. **When Deep Crawling is Needed**:'' @ newline
     @ ''   - Topic requires detailed technical explanations'' @ newline
     @ ''   - Missing key supporting data'' @ newline
     @ ''   - Authoritative sources with truncated content'' @ newline
     @ ''   - Need for complete reports/studies'' @ newline
     @ newline
     @ ''3. **Source Value Assessment**:'' @ newline
     @ ''   - Official sites/docs: High value'' @ newline
     @ ''   - Academic papers/studies: High value  '' @ newline
     @ ''   - Wikipedia/Encyclopedias: Medium value'' @ newline
     @ ''   - News articles: Varies by detail'' @ newline
     @ ''   - Blogs/Forums: Low value'' @ newline
     @ newline
     @ ''Response Format:'' @ newline
     @ newline
     @ ''**Decision**: [ENHANCE/NO_ENHANCE]'' @ newline
     @ ''**Confidence**: [0.1-1.0]'' @ newline
     @ ''**Enhancement Type**: [selective/comprehensive/none]'' @ newline
     @ ''**URLs to Process**: [0-3]'' @ newline
     @ ''**Reasoning**: '' @ newline
     @ ''[Explain your assessment, including content gaps and expected improvements]'' @ newline
     @ newline
     @ ''**Priority URLs** (if enhancing):'' @ newline
     @ ''[Top URLs for deep crawling, in priority order]'' @ [CHR 0x22] @ newline"

text \<open>\<^verbatim>\<open>ContentEnhancementDecisionMaker._build_analysis_prompt\<close>.\<close>

definition build_analysis_prompt :: "string \<Rightarrow> string list \<Rightarrow> source list \<Rightarrow> string" where
  "build_analysis_prompt research_topic current_findings grounding_sources =
     (let findings_summary = join (newline @ ''---'' @ newline) (last_n 3 current_findings);
          sources_list =
            join newline (map (\<lambda>src. ''- '' @ title src @ '': '' @ url src) (take 5 grounding_sources))
      in ''You are a research quality assessment expert. Analyze current research quality and determine if deep content enhancement is needed.'' @ newline
         @ newline
         @ ''Research Topic: '' @ research_topic @ newline
         @ newline
         @ ''Current Findings:'' @ newline
         @ findings_summary @ newline
         @ newline
         @ ''Available Sources:'' @ newline
         @ sources_list @ prompt_rubric)"

text \<open>
  The collaborators of the node, which are not part of the repository's code under
  verification, are parameters: what they return, or raise, in the run considered.
  \<^item> \<open>getenv_FIRECRAWL_API_KEY\<close>: \<^verbatim>\<open>os.getenv("FIRECRAWL_API_KEY")\<close>;
  \<^item> \<open>decision_maker\<close>: the outcome of \<^verbatim>\<open>get_content_enhancement_decision_maker()\<close>, that is
    whether the singleton's \<^verbatim>\<open>firecrawl_app\<close> is set, or the exception of its construction;
  \<^item> \<open>llm_invoke\<close>: from the prompt to the text of the model's reply, or the exception
    raised while the configuration is read, the client is built or the model is called;
  \<^item> \<open>scrape_url\<close>: the crawl of the \<open>i\<close>-th priority URL: a response, \<^verbatim>\<open>None\<close>, or an
    exception;
  \<^item> \<open>now_isoformat\<close>: \<^verbatim>\<open>datetime.now().isoformat()\<close> at the \<open>i\<close>-th priority URL;
  \<^item> \<open>get_research_topic\<close>: the helper of \<^verbatim>\<open>agent.utils\<close>;
  \<^item> \<open>print_error\<close>: the \<^verbatim>\<open>print\<close> of the handler of \<^verbatim>\<open>content_enhancement_analysis\<close>
    (line 169), given \<^verbatim>\<open>error_message\<close>: \<open>None\<close> when it returns, the exception when it
    raises one (\<^verbatim>\<open>UnicodeEncodeError\<close> on a standard output that cannot encode the line,
    \<^verbatim>\<open>ValueError\<close> on a closed one).
\<close>

record scrape_response =
  success :: bool
  markdown :: "string option"

record env =
  getenv_FIRECRAWL_API_KEY :: "string option"
  decision_maker :: "py_exn + bool"
  llm_invoke :: "string \<Rightarrow> py_exn + string"
  scrape_url :: "nat \<Rightarrow> string \<Rightarrow> py_exn + scrape_response option"
  now_isoformat :: "nat \<Rightarrow> string"
  get_research_topic :: "string list \<Rightarrow> py_exn + string"
  print_error :: "string \<Rightarrow> py_exn option"

text \<open>\<^verbatim>\<open>ContentEnhancementDecisionMaker.analyze_enhancement_need\<close>.\<close>

definition analyze_enhancement_need ::
  "env \<Rightarrow> string \<Rightarrow> string list \<Rightarrow> source list \<Rightarrow> py_exn + EnhancementDecision" where
  "analyze_enhancement_need e research_topic current_findings grounding_sources =
     (let analysis_prompt = build_analysis_prompt research_topic current_findings grounding_sources
      in case llm_invoke e analysis_prompt of
           Inl ex \<Rightarrow> Inl ex
         | Inr decision_text \<Rightarrow> Inr (parse_llm_decision decision_text grounding_sources))"

section \<open>The graph nodes\<close>

subsection \<open>The shared research state\<close>

text \<open>
  \<^verbatim>\<open>OverallState\<close> is a dict; a field is \<open>None\<close> when the key is absent. An item of
  \<^verbatim>\<open>plan\<close> is a dict that may have the key \<^verbatim>\<open>description\<close>; an item of
  \<^verbatim>\<open>sources_gathered\<close> is a dict that may have the keys \<^verbatim>\<open>title\<close>, \<^verbatim>\<open>url\<close> and
  \<^verbatim>\<open>snippet\<close>, or a value that is not a dict.
\<close>

record task =
  description :: "string option"

datatype gathered = SourceDict "string option" "string option" "string option" | NotADict

record OverallState =
  plan :: "task list option"
  current_task_pointer :: "int option"
  user_query :: "string option"
  messages :: "string list option"
  web_research_result :: "string list option"
  sources_gathered :: "gathered list option"
  research_loop_count :: "int option"
  enhancement_status :: "string option"
  enhanced_sources_count :: "int option"

text \<open>\<^verbatim>\<open>d.get(key, default)\<close>.\<close>

definition get_default :: "'a option \<Rightarrow> 'a \<Rightarrow> 'a" where
  "get_default v d = (case v of None \<Rightarrow> d | Some x \<Rightarrow> x)"

text \<open>\<^verbatim>\<open>xs[i]\<close>: a negative index counts from the end; \<^verbatim>\<open>IndexError\<close> out of range.\<close>

definition IndexError :: py_exn where
  "IndexError = PyException ''list index out of range''"

text \<open>\<^verbatim>\<open>str(KeyError(k))\<close> is the key in quotes.\<close>

definition KeyError :: "string \<Rightarrow> py_exn" where
  "KeyError k = PyException ([CHR 0x27] @ k @ [CHR 0x27])"

definition py_index :: "'a list \<Rightarrow> int \<Rightarrow> py_exn + 'a" where
  "py_index xs i =
     (if 0 \<le> i
      then (if i < int (length xs) then Inr (xs ! nat i) else Inl IndexError)
      else (if - int (length xs) \<le> i then Inr (xs ! nat (int (length xs) + i))
            else Inl IndexError))"

subsection \<open>The update returned by the analysis node\<close>

text \<open>An \<^verbatim>\<open>enhanced_results\<close> entry of \<^verbatim>\<open>content_enhancement_analysis\<close>.\<close>

record enhanced_result =
  er_url :: string
  er_title :: string
  original_priority :: pyfloat
  enhanced_content :: string
  content_length :: nat
  source_type :: string
  timestamp :: string

text \<open>
  The node returns a dict from key names to values. The value of the key
  \<^verbatim>\<open>enhancement_decision\<close> is a dict with the five fields of the decision, modelled by
  the decision record itself.
\<close>

datatype py_value =
    VStr string
  | VInt int
  | VStrList "string list"
  | VDecision EnhancementDecision
  | VResults "enhanced_result list"

type_synonym state_update = "string \<rightharpoonup> py_value"

subsection \<open>\<^verbatim>\<open>content_enhancement_analysis\<close>\<close>

text \<open>The research topic (lines 34 to 41 of \<^verbatim>\<open>enhanced_graph_nodes.py\<close>).\<close>

definition topic_from_messages :: "env \<Rightarrow> OverallState \<Rightarrow> py_exn + string" where
  "topic_from_messages e state =
     (case messages state of
        None \<Rightarrow> Inl (KeyError ''messages'')
      | Some ms \<Rightarrow> get_research_topic e ms)"

definition research_topic_of :: "env \<Rightarrow> OverallState \<Rightarrow> py_exn + string" where
  "research_topic_of e state =
     (let pl = get_default (plan state) [];
          current_pointer = get_default (current_task_pointer state) 0
      in if pl \<noteq> [] \<and> current_pointer < int (length pl)
         then (case py_index pl current_pointer of
                 Inl ex \<Rightarrow> Inl ex
               | Inr t \<Rightarrow>
                   (case description t of
                      None \<Rightarrow> Inl (KeyError ''description'')
                    | Some d \<Rightarrow> Inr d))
         else (case user_query state of
                 None \<Rightarrow> topic_from_messages e state
               | Some q \<Rightarrow> if q \<noteq> [] then Inr q else topic_from_messages e state))"

text \<open>The grounding sources (lines 47 to 55): the last ten gathered sources that are dicts.\<close>

fun grounding_source :: "gathered \<Rightarrow> source list" where
  "grounding_source (SourceDict t u s) =
     [\<lparr>title = get_default t [], url = get_default u [], snippet = get_default s []\<rparr>]"
| "grounding_source NotADict = []"

definition grounding_sources_of :: "OverallState \<Rightarrow> source list" where
  "grounding_sources_of state =
     concat (map grounding_source (last_n 10 (get_default (sources_gathered state) [])))"

text \<open>
  The crawl loop (lines 104 to 133). \<open>i\<close> is the position of \<^verbatim>\<open>url_info\<close> in
  \<^verbatim>\<open>decision.priority_urls\<close>. The \<^verbatim>\<open>except Exception\<close> of the loop body skips a URL whose
  crawl raises an \<^verbatim>\<open>Exception\<close>, after \<^verbatim>\<open>str(e)\<close> for its message; an exception raised by
  \<^verbatim>\<open>str(e)\<close>, and an exception that is not an \<^verbatim>\<open>Exception\<close>, leave the loop.
\<close>

fun crawl :: "env \<Rightarrow> nat \<Rightarrow> priority_url list \<Rightarrow> enhanced_result list
    \<Rightarrow> py_exn + enhanced_result list" where
  "crawl e i [] enhanced_results = Inr enhanced_results"
| "crawl e i (url_info # rest) enhanced_results =
     (if pu_url url_info = [] then crawl e (Suc i) rest enhanced_results
      else case scrape_url e i (pu_url url_info) of
             Inl (PyException m) \<Rightarrow> crawl e (Suc i) rest enhanced_results
           | Inl (PyUnprintable ex) \<Rightarrow> Inl ex
           | Inl (PyBaseException m) \<Rightarrow> Inl (PyBaseException m)
           | Inr None \<Rightarrow> crawl e (Suc i) rest enhanced_results
           | Inr (Some result) \<Rightarrow>
               if success result
               then let markdown_content = get_default (markdown result) []
                    in crawl e (Suc i) rest
                         (enhanced_results @
                            [\<lparr>er_url = pu_url url_info,
                              er_title = pu_title url_info,
                              original_priority = priority_score url_info,
                              enhanced_content = markdown_content,
                              content_length = length markdown_content,
                              source_type = ''firecrawl_enhanced'',
                              timestamp = now_isoformat e i\<rparr>])
               else crawl e (Suc i) rest enhanced_results)"

text \<open>The formatted block of one result (lines 140 to 150).\<close>

definition format_enhanced_content :: "enhanced_result \<Rightarrow> string" where
  "format_enhanced_content result =
     newline @ newline
     @ ''## Deep Content Enhancement - '' @ er_title result @ newline
     @ newline
     @ ''Source: '' @ er_url result @ newline
     @ ''Content Length: '' @ str_nat (content_length result) @ '' characters'' @ newline
     @ newline
     @ take 3000 (enhanced_content result)
     @ (if 3000 < length (enhanced_content result) then ''...'' else [])
     @ newline
     @ newline
     @ ''---'' @ newline"

text \<open>The body of the \<^verbatim>\<open>try\<close> block (lines 33 to 165).\<close>

definition analysis_body :: "env \<Rightarrow> OverallState \<Rightarrow> py_exn + state_update" where
  "analysis_body e state =
     (case research_topic_of e state of
        Inl ex \<Rightarrow> Inl ex
      | Inr research_topic \<Rightarrow>
     (let current_findings = get_default (web_research_result state) [];
          grounding_sources = grounding_sources_of state
      in case decision_maker e of
           Inl ex \<Rightarrow> Inl ex
         | Inr app \<Rightarrow>
      (case analyze_enhancement_need e research_topic current_findings grounding_sources of
           Inl ex \<Rightarrow> Inl ex
         | Inr decision \<Rightarrow>
      (let state_update = [''enhancement_decision'' \<mapsto> VDecision decision]
       in if \<not> needs_enhancement decision
          then Inr (state_update(''enhancement_status'' \<mapsto> VStr ''skipped''))
          else if \<not> app
          then Inr (state_update(''enhancement_status'' \<mapsto> VStr ''skipped_no_api''))
          else (case crawl e 0 (priority_urls decision) [] of
                  Inl ex \<Rightarrow> Inl ex
                | Inr enhanced_results \<Rightarrow>
                    if enhanced_results \<noteq> []
                    then let enhanced_contents = map format_enhanced_content enhanced_results
                         in Inr (state_update
                                  (''enhanced_content_results'' \<mapsto> VResults enhanced_results,
                                   ''web_research_result'' \<mapsto> VStrList enhanced_contents,
                                   ''enhancement_status'' \<mapsto> VStr ''completed'',
                                   ''enhanced_sources_count'' \<mapsto>
                                      VInt (int (length enhanced_results))))
                    else Inr (state_update(''enhancement_status'' \<mapsto> VStr ''failed'')))))))"

text \<open>
  The node: the \<^verbatim>\<open>try\<close> block with its handler \<^verbatim>\<open>except Exception as e\<close> (lines 167
  to 173). The handler builds \<^verbatim>\<open>error_message\<close> with \<^verbatim>\<open>str(e)\<close>, prints it and returns the
  error update; it runs outside the \<^verbatim>\<open>try\<close> block, so an exception raised by \<^verbatim>\<open>str(e)\<close> or
  by the \<^verbatim>\<open>print\<close> leaves the node. The progress messages printed inside the \<^verbatim>\<open>try\<close>
  block are not part of the model: they are taken to be written without error.
\<close>

definition content_enhancement_analysis :: "env \<Rightarrow> OverallState \<Rightarrow> py_exn + state_update" where
  "content_enhancement_analysis e state =
     (case analysis_body e state of
        Inl (PyException m) \<Rightarrow>
          (let error_message = ''Content enhancement analysis node exception: '' @ m
           in case print_error e error_message of
                Some ex \<Rightarrow> Inl ex
              | None \<Rightarrow>
                  Inr [''enhancement_status'' \<mapsto> VStr ''error'',
                       ''enhancement_error'' \<mapsto> VStr error_message])
      | Inl (PyUnprintable ex) \<Rightarrow> Inl ex
      | Inl (PyBaseException m) \<Rightarrow> Inl (PyBaseException m)
      | Inr state_update \<Rightarrow> Inr state_update)"

subsection \<open>\<^verbatim>\<open>should_enhance_content\<close>\<close>

text \<open>\<^verbatim>\<open>not os.getenv("FIRECRAWL_API_KEY")\<close>: the variable is unset or empty.\<close>

definition credential_configured :: "env \<Rightarrow> bool" where
  "credential_configured e =
     (case getenv_FIRECRAWL_API_KEY e of None \<Rightarrow> False | Some k \<Rightarrow> k \<noteq> [])"

definition should_enhance_content :: "env \<Rightarrow> OverallState \<Rightarrow> string" where
  "should_enhance_content e state =
     (if \<not> credential_configured e then ''continue_without_enhancement''
      else let loop_count = get_default (research_loop_count state) 0
           in if loop_count < 1 then ''continue_without_enhancement''
              else if enhancement_status state = Some ''completed''
                      \<or> enhancement_status state = Some ''skipped''
              then ''continue_without_enhancement''
              else let current_findings = get_default (web_research_result state) []
                   in if length current_findings < 1 then ''continue_without_enhancement''
                      else ''analyze_enhancement_need'')"

subsection \<open>\<^verbatim>\<open>enhanced_reflection\<close>\<close>

text \<open>
  \<^verbatim>\<open>ReflectionState\<close>: the two fields the node reads and writes; the other fields of the
  base reflection's result are the extension of the record. The base reflection node
  \<^verbatim>\<open>agent.graph.reflection\<close> is a collaborator: its outcome, a result or an exception, is a
  parameter.
\<close>

record ReflectionState =
  is_sufficient :: bool
  knowledge_gap :: string

definition enhanced_reflection ::
  "OverallState \<Rightarrow> py_exn + 'a ReflectionState_scheme \<Rightarrow> py_exn + 'a ReflectionState_scheme" where
  "enhanced_reflection state reflection =
     (case reflection of
        Inl ex \<Rightarrow> Inl ex
      | Inr reflection_result \<Rightarrow>
          let status = enhancement_status state;
              count = get_default (enhanced_sources_count state) 0
          in if status = Some ''completed'' \<and> 0 < count
             then if \<not> is_sufficient reflection_result
                  then (case float_of_int count of
                          Inl ex \<Rightarrow> Inl ex
                        | Inr c \<Rightarrow>
                            let enhancement_boost =
                                  py_min (fmul c (float_lit (3 / 10))) (float_lit (8 / 10))
                            in if float_lit (6 / 10) \<le> enhancement_boost
                               then Inr (reflection_result
                                          \<lparr>is_sufficient := True,
                                           knowledge_gap :=
                                             ''Content has been sufficiently supplemented through deep crawling''\<rparr>)
                               else Inr reflection_result)
                  else Inr reflection_result
             else Inr reflection_result)"

section \<open>Notions used to state the properties\<close>

text \<open>The score as a function of the outcome of the four tests of the scorer.\<close>

definition score_of_rules :: "bool \<Rightarrow> bool \<Rightarrow> bool \<Rightarrow> bool \<Rightarrow> pyfloat" where
  "score_of_rules a b c d =
     (let score0 = float_lit 0;
          score1 = (if a then fadd score0 (float_lit (4 / 10)) else score0);
          score2 = (if b then fadd score1 (float_lit (3 / 10)) else score1);
          score3 = (if c then fadd score2 (float_lit (2 / 10)) else score2);
          score4 = (if d then fadd score3 (float_lit (2 / 10)) else score3);
          score5 = fadd score4 (float_lit (1 / 10))
      in py_min score5 (float_lit 1))"

text \<open>
  The priority URLs as claim C2 words them: the sources that score above \<open>0.3\<close>, by
  descending score, ties in input order, at most three for a comprehensive enhancement and
  two otherwise, each with its title, URL, score and the reasoning text.
\<close>

definition entry_of_source :: "source \<Rightarrow> priority_url" where
  "entry_of_source src =
     \<lparr>pu_title = title src, pu_url = url src,
      priority_score = calculate_url_priority src,
      pu_reasoning = ''Score: '' @ format_2f (calculate_url_priority src)\<rparr>"

definition claimed_priority_urls :: "string \<Rightarrow> source list \<Rightarrow> priority_url list" where
  "claimed_priority_urls etype srcs =
     map entry_of_source
       (take (if etype = ''comprehensive'' then 3 else 2)
          (sort_reverse calculate_url_priority
             (filter (\<lambda>src. float_lit (3 / 10) < calculate_url_priority src) srcs)))"

text \<open>
  A token of a text: a maximal run of letters, digits and underscores. \<open>has_token w s\<close>:
  the word \<open>w\<close> is one of the tokens of \<open>s\<close>.
\<close>

definition is_word_char :: "char \<Rightarrow> bool" where
  "is_word_char c =
     (let n = (of_char c :: nat)
      in (48 \<le> n \<and> n \<le> 57) \<or> (65 \<le> n \<and> n \<le> 90) \<or> (97 \<le> n \<and> n \<le> 122) \<or> n = 95)"

fun word_tokens :: "string \<Rightarrow> string list" where
  "word_tokens [] = [[]]"
| "word_tokens (c # cs) =
     (if is_word_char c
      then (case word_tokens cs of [] \<Rightarrow> [[c]] | t # ts \<Rightarrow> (c # t) # ts)
      else [] # word_tokens cs)"

definition has_token :: "string \<Rightarrow> string \<Rightarrow> bool" where
  "has_token w s = (w \<noteq> [] \<and> List.member (word_tokens s) w)"

text \<open>The verdict that \<^verbatim>\<open>enhanced_reflection\<close> returns when it overrides the base verdict.\<close>

definition supplemented :: "'a ReflectionState_scheme \<Rightarrow> 'a ReflectionState_scheme" where
  "supplemented r =
     r\<lparr>is_sufficient := True,
       knowledge_gap := ''Content has been sufficiently supplemented through deep crawling''\<rparr>"

text \<open>The update that the handler of \<^verbatim>\<open>content_enhancement_analysis\<close> returns.\<close>

definition error_update :: "string \<Rightarrow> state_update" where
  "error_update m =
     [''enhancement_status'' \<mapsto> VStr ''error'',
      ''enhancement_error'' \<mapsto> VStr (''Content enhancement analysis node exception: '' @ m)]"

text \<open>A state with no key set, and collaborators that answer nothing, to build examples from.\<close>

definition empty_state :: OverallState where
  "empty_state =
     \<lparr>plan = None, current_task_pointer = None, user_query = None, messages = None,
      web_research_result = None, sources_gathered = None, research_loop_count = None,
      enhancement_status = None, enhanced_sources_count = None\<rparr>"

definition quiet_env :: env where
  "quiet_env =
     \<lparr>getenv_FIRECRAWL_API_KEY = None,
      decision_maker = Inr False,
      llm_invoke = (\<lambda>prompt. Inr ''''),
      scrape_url = (\<lambda>i u. Inr None),
      now_isoformat = (\<lambda>i. ''''),
      get_research_topic = (\<lambda>ms. Inr ''''),
      print_error = (\<lambda>error_message. None)\<rparr>"

text \<open>Three grounding sources that score \<open>0.9\<close>, \<open>0.1\<close> and \<open>0.7\<close>.\<close>

definition example_sources :: "source list" where
  "example_sources =
     [\<lparr>title = ''Annual Report'', url = ''https://google.org/a'', snippet = ''''\<rparr>,
      \<lparr>title = ''Blog'', url = ''https://example.com'', snippet = ''''\<rparr>,
      \<lparr>title = ''A Study'', url = ''https://x.org'', snippet = ''''\<rparr>]"

text \<open>A state, collaborators and the values they lead to, for the examples below.\<close>

definition example_state :: OverallState where
  "example_state =
     empty_state
       \<lparr>user_query := Some ''solid state batteries'',
        web_research_result := Some [''Solid state cells are studied.''],
        sources_gathered := Some [SourceDict (Some ''A Study'') (Some ''https://x.org'') None]\<rparr>"


definition example_result :: enhanced_result where
  "example_result =
     \<lparr>er_url = ''https://x.org'', er_title = ''A Study'',
      original_priority = 50440315826549560 / 2 ^ 56,
      enhanced_content = ''# Cells'', content_length = 7,
      source_type = ''firecrawl_enhanced'', timestamp = ''2025-01-01T00:00:00''\<rparr>"

definition example_decision :: EnhancementDecision where
  "example_decision =
     \<lparr>needs_enhancement = True,
      priority_urls = [\<lparr>pu_title = ''A Study'', pu_url = ''https://x.org'',
                        priority_score = 50440315826549560 / 2 ^ 56,
                        pu_reasoning = ''Score: 0.70''\<rparr>],
      reasoning = ''decision: enhance'',
      confidence_score = float_lit (5 / 10),
      enhancement_type = ''selective''\<rparr>"

definition interrupted_env :: env where
  "interrupted_env = quiet_env\<lparr>llm_invoke := (\<lambda>prompt. Inl (PyBaseException ''KeyboardInterrupt''))\<rparr>"

definition failing_env :: env where
  "failing_env = quiet_env\<lparr>llm_invoke := (\<lambda>prompt. Inl (PyException ''503 Service Unavailable''))\<rparr>"

definition unencodable_env :: env where
  "unencodable_env =
     failing_env\<lparr>print_error := (\<lambda>error_message. Some (PyException ''UnicodeEncodeError''))\<rparr>"

definition enhance_env :: env where
  "enhance_env = quiet_env\<lparr>llm_invoke := (\<lambda>prompt. Inr ''Decision: ENHANCE'')\<rparr>"

section \<open>Rounding to a double\<close>

text \<open>
  \<open>floor_log2\<close> finds the binade of a positive rational, and rounding never crosses a
  number that is itself a double: \<open>round_double\<close> is monotone against such bounds.
\<close>

lemma floor_log2_bounds:
  assumes "0 < x"
  shows "2 powi floor_log2 x \<le> x" and "x < 2 powi (floor_log2 x + 1)"
proof -
  obtain p q where pq: "quotient_of x = (p, q)" by (cases "quotient_of x")
  have q: "0 < q" using pq by (rule quotient_of_denom_pos)
  have x: "x = of_int p / of_int q" using pq by (rule quotient_of_div)
  have p: "0 < p" using assms q x by (simp add: zero_less_divide_iff)
  define bp bq where "bp = bitlen p" and "bq = bitlen q"
  have bp1: "1 \<le> bp" and bq1: "1 \<le> bq"
    using p q by (auto simp: bp_def bq_def bitlen_alt_def)
  have pb: "2 ^ nat (bp - 1) \<le> p" "p < 2 ^ nat bp"
    using bitlen_bounds[OF p] by (auto simp: bp_def)
  have qb: "2 ^ nat (bq - 1) \<le> q" "q < 2 ^ nat bq"
    using bitlen_bounds[OF q] by (auto simp: bq_def)
  have pr: "(2::rat) powi (bp - 1) \<le> of_int p" "of_int p < (2::rat) powi bp"
  proof -
    have "(of_int (2 ^ nat (bp - 1)) :: rat) \<le> of_int p" using pb(1) by (simp only: of_int_le_iff)
    then show "(2::rat) powi (bp - 1) \<le> of_int p" using bp1 by (simp add: power_int_def)
    have "(of_int p :: rat) < of_int (2 ^ nat bp)" using pb(2) by (simp only: of_int_less_iff)
    then show "of_int p < (2::rat) powi bp" using bp1 by (simp add: power_int_def)
  qed
  have qr: "(2::rat) powi (bq - 1) \<le> of_int q" "of_int q < (2::rat) powi bq"
  proof -
    have "(of_int (2 ^ nat (bq - 1)) :: rat) \<le> of_int q" using qb(1) by (simp only: of_int_le_iff)
    then show "(2::rat) powi (bq - 1) \<le> of_int q" using bq1 by (simp add: power_int_def)
    have "(of_int q :: rat) < of_int (2 ^ nat bq)" using qb(2) by (simp only: of_int_less_iff)
    then show "of_int q < (2::rat) powi bq" using bq1 by (simp add: power_int_def)
  qed
  have qpos: "(0::rat) < of_int q" using q by simp
  have up: "x < 2 powi (bp - bq + 1)"
  proof -
    have "x * of_int q = of_int p" using x qpos by simp
    also have "\<dots> < 2 powi bp" by (rule pr(2))
    also have "\<dots> = 2 powi (bp - bq + 1) * (2::rat) powi (bq - 1)"
      by (simp add: power_int_add[symmetric])
    also have "\<dots> \<le> 2 powi (bp - bq + 1) * of_int q"
      using qr(1) by (intro mult_left_mono) auto
    finally show ?thesis using qpos by simp
  qed
  have lo: "2 powi (bp - bq - 1) \<le> x"
  proof -
    have "2 powi (bp - bq - 1) * of_int q \<le> 2 powi (bp - bq - 1) * (2::rat) powi bq"
      using qr(2) by (intro mult_left_mono) auto
    also have "\<dots> = 2 powi (bp - 1)" by (simp add: power_int_add[symmetric])
    also have "\<dots> \<le> of_int p" by (rule pr(1))
    also have "\<dots> = x * of_int q" using x qpos by simp
    finally show ?thesis using qpos by simp
  qed
  have fl: "floor_log2 x = (if 2 powi (bp - bq) \<le> x then bp - bq else bp - bq - 1)"
    by (simp add: floor_log2_def pq Let_def bp_def bq_def)
  show "2 powi floor_log2 x \<le> x" using lo by (simp add: fl)
  show "x < 2 powi (floor_log2 x + 1)" using up by (auto simp: fl not_le)
qed

lemma round_half_even_bounds:
  "\<lfloor>x\<rfloor> \<le> round_half_even x" "round_half_even x \<le> \<lceil>x\<rceil>"
proof -
  show "\<lfloor>x\<rfloor> \<le> round_half_even x" by (simp add: round_half_even_def Let_def)
  have "\<lceil>x\<rceil> = \<lfloor>x\<rfloor> + 1" if "x - of_int \<lfloor>x\<rfloor> \<noteq> 0"
    using that by (metis ceiling_altdef eq_iff_diff_eq_0)
  moreover have "\<lfloor>x\<rfloor> \<le> \<lceil>x\<rceil>" by (rule floor_le_ceiling)
  ultimately show "round_half_even x \<le> \<lceil>x\<rceil>"
    by (auto simp add: round_half_even_def Let_def)
qed

lemma round_double_ge:
  assumes m: "0 < m" "m < 2 ^ 53" and le: "of_int m * 2 powi k \<le> y"
  shows "of_int m * 2 powi k \<le> round_double y"
proof -
  let ?f = "of_int m * (2::rat) powi k"
  have fpos: "0 < ?f" using m by simp
  then have ypos: "0 < y" using le by simp
  define e where "e = floor_log2 y - 52"
  have rd: "round_double y = of_int (round_half_even (y / 2 powi e)) * 2 powi e"
    using ypos by (simp add: round_double_def e_def Let_def)
  have lo: "2 powi (e + 52) \<le> y" using floor_log2_bounds(1)[OF ypos] by (simp add: e_def)
  have epos: "(0::rat) < 2 powi e" by simp
  show ?thesis
  proof (cases "e \<le> k")
    case True
    define M where "M = m * 2 ^ nat (k - e)"
    have fM: "?f = of_int M * 2 powi e"
    proof -
      have "(2::rat) powi k = 2 powi (k - e) * 2 powi e" by (simp add: power_int_add[symmetric])
      also have "(2::rat) powi (k - e) = 2 ^ nat (k - e)" using True by (simp add: power_int_def)
      finally show ?thesis by (simp add: M_def)
    qed
    have "of_int M \<le> y / 2 powi e" using le epos by (simp add: fM pos_le_divide_eq)
    then have "M \<le> \<lfloor>y / 2 powi e\<rfloor>" by (simp add: le_floor_iff)
    also have "\<dots> \<le> round_half_even (y / 2 powi e)" by (rule round_half_even_bounds)
    finally have "(of_int M :: rat) \<le> of_int (round_half_even (y / 2 powi e))" by simp
    then show ?thesis using epos by (simp add: fM rd)
  next
    case False
    then have ke: "k + 1 \<le> e" by simp
    have "(of_int m :: rat) \<le> of_int (2 ^ 53)" using m(2) by (simp only: of_int_le_iff)
    then have "?f \<le> 2 ^ 53 * 2 powi k" by (intro mult_right_mono) auto
    also have "\<dots> = 2 powi (k + 53)" by (simp add: power_int_add)
    also have "\<dots> \<le> 2 powi (e + 52)" using ke by (intro power_int_increasing) auto
    finally have f52: "?f \<le> 2 powi (e + 52)" .
    have "(2::rat) ^ 52 = 2 powi (e + 52) / 2 powi e" by (simp add: power_int_add)
    also have "\<dots> \<le> y / 2 powi e" using lo epos by (simp add: divide_right_mono)
    finally have "(of_int (2 ^ 52) :: rat) \<le> y / 2 powi e" by simp
    then have "(2 ^ 52 :: int) \<le> \<lfloor>y / 2 powi e\<rfloor>" by (simp only: le_floor_iff)
    also have "\<dots> \<le> round_half_even (y / 2 powi e)" by (rule round_half_even_bounds)
    finally have "(of_int (2 ^ 52) :: rat) \<le> of_int (round_half_even (y / 2 powi e))"
      by (simp only: of_int_le_iff)
    then have "(2::rat) ^ 52 * 2 powi e \<le> round_double y"
      unfolding rd using epos by (intro mult_right_mono) auto
    then have "2 powi (e + 52) \<le> round_double y" by (simp add: power_int_add mult.commute)
    with f52 show ?thesis by simp
  qed
qed

lemma round_double_le:
  assumes m: "0 < m" "m < 2 ^ 53" and y: "0 < y" and le: "y \<le> of_int m * 2 powi k"
  shows "round_double y \<le> of_int m * 2 powi k"
proof -
  let ?f = "of_int m * (2::rat) powi k"
  define e where "e = floor_log2 y - 52"
  have rd: "round_double y = of_int (round_half_even (y / 2 powi e)) * 2 powi e"
    using y by (simp add: round_double_def e_def Let_def)
  have lo: "2 powi (e + 52) \<le> y" using floor_log2_bounds(1)[OF y] by (simp add: e_def)
  have epos: "(0::rat) < 2 powi e" by simp
  have ek: "e \<le> k"
  proof (rule ccontr)
    assume "\<not> e \<le> k"
    then have ke: "k + 1 \<le> e" by simp
    have "(of_int m :: rat) < of_int (2 ^ 53)" using m(2) by (simp only: of_int_less_iff)
    then have "?f < 2 ^ 53 * 2 powi k" by (intro mult_strict_right_mono) auto
    also have "\<dots> = 2 powi (k + 53)" by (simp add: power_int_add)
    also have "\<dots> \<le> 2 powi (e + 52)" using ke by (intro power_int_increasing) auto
    also have "\<dots> \<le> y" by (rule lo)
    finally show False using le by simp
  qed
  define M where "M = m * 2 ^ nat (k - e)"
  have fM: "?f = of_int M * 2 powi e"
  proof -
    have "(2::rat) powi k = 2 powi (k - e) * 2 powi e" by (simp add: power_int_add[symmetric])
    also have "(2::rat) powi (k - e) = 2 ^ nat (k - e)" using ek by (simp add: power_int_def)
    finally show ?thesis by (simp add: M_def)
  qed
  have "y / 2 powi e \<le> of_int M" using le epos by (simp add: fM pos_divide_le_eq)
  then have "\<lceil>y / 2 powi e\<rceil> \<le> M" by (simp add: ceiling_le_iff)
  moreover have "round_half_even (y / 2 powi e) \<le> \<lceil>y / 2 powi e\<rceil>" by (rule round_half_even_bounds)
  ultimately have "(of_int (round_half_even (y / 2 powi e)) :: rat) \<le> of_int M" by simp
  then show ?thesis using epos by (simp add: fM rd)
qed

section \<open>The URL priority scorer: properties\<close>

lemma calculate_url_priority_rules:
  "calculate_url_priority src =
     score_of_rules
       (any_in [''.gov'', ''.edu'', ''.org''] (lower (url src)))
       (any_in [''wikipedia'', ''arxiv'', ''ieee'', ''acm''] (lower (url src)))
       (any_in [''report'', ''study'', ''research'', ''analysis'', ''technical''] (lower (title src)))
       (any_in [''google'', ''microsoft'', ''amazon'', ''tesla'', ''nvidia''] (lower (url src)))"
  unfolding calculate_url_priority_def score_of_rules_def Let_def by (rule refl)

text \<open>The sixteen scores, as multiples of \<open>2\<^sup>-\<^sup>5\<^sup>6\<close>.\<close>

lemma score_of_rules_table:
  "score_of_rules a b c d =
     (if a then (if b then (if c then (if d then 72057594037927936 else 72057594037927928)
                            else (if d then 72057594037927928 else 57646075230342344))
                 else (if c then (if d then 64851834634135144 else 50440315826549560)
                       else (if d then 50440315826549560 else 36028797018963968)))
      else (if b then (if c then (if d then 57646075230342344 else 43234556422756760)
                       else (if d then 43234556422756760 else 28823037615171176))
            else (if c then (if d then 36028797018963968 else 21617278211378384)
                  else (if d then 21617278211378384 else 7205759403792794)))) / 2 ^ 56"
  by (cases a; cases b; cases c; cases d; simp only: if_True if_False; code_simp)

lemma float_lit_3_10: "float_lit (3 / 10) = 21617278211378380 / 2 ^ 56"
  by code_simp

text \<open>
  Claim C1, as stated: the score equals \<open>min(0.1 + 0.4 + 0.3 + 0.2 + 0.2, 1.0)\<close> with the
  bonuses of the rules that apply. It fails for a source on an \<^verbatim>\<open>.org\<close> host whose title
  has the word \<^verbatim>\<open>report\<close>: the code adds \<open>0.4\<close>, \<open>0.2\<close> and then the base \<open>0.1\<close> and returns
  \<open>0.7000000000000001\<close>. That is not the sum \<open>0.1 + 0.4 + 0.2\<close> of the claim taken in double
  arithmetic, which is \<open>0.7\<close>; it is not the double nearest to the decimal \<open>7/10\<close>; and it is
  not the decimal \<open>7/10\<close> itself.
\<close>

theorem calculate_url_priority_counterexample:
  "calculate_url_priority \<lparr>title = ''report'', url = ''x.org'', snippet = ''''\<rparr>
     \<noteq> claimed_url_priority \<lparr>title = ''report'', url = ''x.org'', snippet = ''''\<rparr>
   \<and> calculate_url_priority \<lparr>title = ''report'', url = ''x.org'', snippet = ''''\<rparr>
     \<noteq> float_lit (exact_url_priority \<lparr>title = ''report'', url = ''x.org'', snippet = ''''\<rparr>)
   \<and> calculate_url_priority \<lparr>title = ''report'', url = ''x.org'', snippet = ''''\<rparr>
     \<noteq> exact_url_priority \<lparr>title = ''report'', url = ''x.org'', snippet = ''''\<rparr>"
  by code_simp

text \<open>
  Claim C1, amended: the score is within \<open>2\<^sup>-\<^sup>5\<^sup>3\<close> of the exact decimal sum
  \<open>min(0.1 + 0.4 + 0.3 + 0.2 + 0.2, 1)\<close> of the base and of the bonuses of the rules that
  apply, each counted once; it lies in \<open>[0, 1]\<close>; and it depends on the title and the URL of
  the source only.
\<close>

theorem calculate_url_priority_amended:
  "\<bar>calculate_url_priority src - exact_url_priority src\<bar> \<le> 1 / 2 ^ 53
   \<and> 0 \<le> calculate_url_priority src \<and> calculate_url_priority src \<le> 1
   \<and> calculate_url_priority src
       = calculate_url_priority \<lparr>title = title src, url = url src, snippet = []\<rparr>"
  unfolding calculate_url_priority_rules exact_url_priority_def Let_def score_of_rules_table
  by simp

section \<open>The priority URLs\<close>

text \<open>\<open>sort_reverse\<close> permutes its input, sorts it by descending key, and is stable.\<close>

lemma insert_desc_map:
  "insert_desc snd (x, f x) (map (\<lambda>s. (s, f s)) ys) = map (\<lambda>s. (s, f s)) (insert_desc f x ys)"
  by (induction ys) auto

lemma sort_reverse_map:
  "sort_reverse snd (map (\<lambda>s. (s, f s)) xs) = map (\<lambda>s. (s, f s)) (sort_reverse f xs)"
  by (induction xs) (simp_all add: sort_reverse_def insert_desc_map)

lemma set_insert_desc: "set (insert_desc key x ys) = insert x (set ys)"
  by (induction ys) auto

lemma mset_insert_desc: "mset (insert_desc key x ys) = add_mset x (mset ys)"
  by (induction ys) auto

lemma mset_sort_reverse: "mset (sort_reverse key xs) = mset xs"
  by (induction xs) (simp_all add: sort_reverse_def mset_insert_desc)

lemma sorted_insert_desc:
  "sorted_wrt (\<lambda>a b. key b \<le> key a) ys \<Longrightarrow> sorted_wrt (\<lambda>a b. key b \<le> key a) (insert_desc key x ys)"
  by (induction ys) (auto simp: set_insert_desc)

lemma sorted_sort_reverse: "sorted_wrt (\<lambda>a b. key b \<le> key a) (sort_reverse key xs)"
  by (induction xs) (simp_all add: sort_reverse_def sorted_insert_desc)

lemma insert_desc_all_le: "(\<And>z. z \<in> set zs \<Longrightarrow> key z \<le> key x) \<Longrightarrow> insert_desc key x zs = x # zs"
  by (cases zs) auto

lemma filter_insert_desc:
  "sorted_wrt (\<lambda>a b. key b \<le> key a) ys \<Longrightarrow>
     filter P (insert_desc key x ys) = (if P x then insert_desc key x (filter P ys) else filter P ys)"
proof (induction ys)
  case Nil
  then show ?case by simp
next
  case (Cons y ys)
  show ?case
  proof (cases "key y \<le> key x")
    case True
    have "insert_desc key x (filter P ys) = x # filter P ys"
    proof (rule insert_desc_all_le)
      fix z assume "z \<in> set (filter P ys)"
      then have "key z \<le> key y" using Cons.prems by auto
      then show "key z \<le> key x" using True by simp
    qed
    then show ?thesis using True by simp
  next
    case False
    then show ?thesis using Cons by simp
  qed
qed

lemma filter_sort_reverse: "filter P (sort_reverse key xs) = sort_reverse key (filter P xs)"
proof (induction xs)
  case Nil
  then show ?case by (simp add: sort_reverse_def)
next
  case (Cons x xs)
  have "filter P (sort_reverse key (x # xs)) = filter P (insert_desc key x (sort_reverse key xs))"
    by (simp add: sort_reverse_def)
  also have "\<dots> = (if P x then insert_desc key x (filter P (sort_reverse key xs))
                    else filter P (sort_reverse key xs))"
    by (rule filter_insert_desc[OF sorted_sort_reverse])
  also have "\<dots> = sort_reverse key (filter P (x # xs))"
    using Cons by (simp add: sort_reverse_def)
  finally show ?case .
qed

text \<open>The sort is stable: the elements of any one key keep their input order.\<close>

lemma sort_reverse_stable:
  "filter (\<lambda>x. key x = v) (sort_reverse key xs) = filter (\<lambda>x. key x = v) xs"
proof (induction xs)
  case Nil
  then show ?case by (simp add: sort_reverse_def)
next
  case (Cons x xs)
  let ?P = "\<lambda>x. key x = v"
  have first: "insert_desc key x (filter ?P xs) = x # filter ?P xs" if "key x = v"
    by (rule insert_desc_all_le) (use that in auto)
  have "filter ?P (sort_reverse key (x # xs)) = filter ?P (insert_desc key x (sort_reverse key xs))"
    by (simp add: sort_reverse_def)
  also have "\<dots> = (if ?P x then insert_desc key x (filter ?P (sort_reverse key xs))
                    else filter ?P (sort_reverse key xs))"
    by (rule filter_insert_desc[OF sorted_sort_reverse])
  also have "\<dots> = (if ?P x then insert_desc key x (filter ?P xs) else filter ?P xs)"
    by (simp only: Cons.IH)
  also have "\<dots> = filter ?P (x # xs)"
    using first by simp
  finally show ?case .
qed

lemma filter_take_sorted:
  fixes key :: "'a \<Rightarrow> pyfloat"
  shows "sorted_wrt (\<lambda>a b. key b \<le> key a) ys \<Longrightarrow>
     filter (\<lambda>x. c < key x) (take k ys) = take k (filter (\<lambda>x. c < key x) ys)"
proof (induction ys arbitrary: k)
  case Nil
  then show ?case by simp
next
  case (Cons y ys)
  show ?case
  proof (cases k)
    case 0
    then show ?thesis by simp
  next
    case (Suc j)
    show ?thesis
    proof (cases "c < key y")
      case True
      then show ?thesis using Cons Suc by simp
    next
      case False
      have none: "\<not> c < key z" if "z \<in> set ys" for z
        using Cons.prems False that by fastforce
      have "filter (\<lambda>x. c < key x) ys = []" using none by (simp add: filter_empty_conv)
      moreover have "filter (\<lambda>x. c < key x) (take j ys) = []"
        using none by (auto simp: filter_empty_conv dest: in_set_takeD)
      ultimately show ?thesis using False Suc by simp
    qed
  qed
qed

lemma priority_selection:
  "map priority_entry
     (filter (\<lambda>p. c < snd p) (take k (sort_reverse snd (map (\<lambda>s. (s, calculate_url_priority s)) srcs))))
   = map entry_of_source
       (take k (sort_reverse calculate_url_priority (filter (\<lambda>s. c < calculate_url_priority s) srcs)))"
proof -
  let ?pair = "\<lambda>s. (s, calculate_url_priority s)"
  have "filter (\<lambda>p. c < snd p) (take k (sort_reverse snd (map ?pair srcs)))
        = map ?pair (filter (\<lambda>s. c < calculate_url_priority s) (take k (sort_reverse calculate_url_priority srcs)))"
    by (simp add: sort_reverse_map take_map filter_map comp_def)
  also have "filter (\<lambda>s. c < calculate_url_priority s) (take k (sort_reverse calculate_url_priority srcs))
        = take k (sort_reverse calculate_url_priority (filter (\<lambda>s. c < calculate_url_priority s) srcs))"
    by (simp add: filter_take_sorted[OF sorted_sort_reverse] filter_sort_reverse)
  finally show ?thesis
    by (simp add: comp_def priority_entry_def entry_of_source_def)
qed

lemma set_sort_reverse: "set (sort_reverse key xs) = set xs"
  by (induction xs) (simp_all add: sort_reverse_def set_insert_desc)

lemma priority_score_entry: "priority_score (entry_of_source src) = calculate_url_priority src"
  by (simp add: entry_of_source_def)

lemma claimed_priority_urls_shape:
  "sorted_wrt (\<lambda>a b. priority_score b \<le> priority_score a) (claimed_priority_urls etype srcs)"
  "list_all (\<lambda>p. float_lit (3 / 10) < priority_score p) (claimed_priority_urls etype srcs)"
  "length (claimed_priority_urls etype srcs) \<le> (if etype = ''comprehensive'' then 3 else 2)"
proof -
  let ?k = "if etype = ''comprehensive'' then 3 else 2 :: nat"
  let ?good = "filter (\<lambda>src. float_lit (3 / 10) < calculate_url_priority src) srcs"
  let ?ranked = "take ?k (sort_reverse calculate_url_priority ?good)"
  have urls: "claimed_priority_urls etype srcs = map entry_of_source ?ranked"
    by (simp add: claimed_priority_urls_def)
  have "sorted_wrt (\<lambda>a b. calculate_url_priority b \<le> calculate_url_priority a) ?ranked"
    by (rule sorted_wrt_take) (rule sorted_sort_reverse)
  then show "sorted_wrt (\<lambda>a b. priority_score b \<le> priority_score a) (claimed_priority_urls etype srcs)"
    by (simp only: urls sorted_wrt_map priority_score_entry)
  have "float_lit (3 / 10) < calculate_url_priority src" if "src \<in> set ?ranked" for src
  proof -
    from that have "src \<in> set (sort_reverse calculate_url_priority ?good)" by (rule in_set_takeD)
    then have "src \<in> set ?good" by (simp only: set_sort_reverse)
    then show ?thesis by simp
  qed
  then show "list_all (\<lambda>p. float_lit (3 / 10) < priority_score p) (claimed_priority_urls etype srcs)"
    by (simp only: urls list_all_iff set_map ball_simps priority_score_entry) blast
  show "length (claimed_priority_urls etype srcs) \<le> (if etype = ''comprehensive'' then 3 else 2)"
    by (simp only: urls length_map length_take min.cobounded2)
qed

text \<open>
  Claim C2: when the reply asks for an enhancement and there is at least one grounding
  source, \<^verbatim>\<open>priority_urls\<close> is made of exactly the sources that score strictly above
  \<open>0.3\<close>, by descending score, sources of equal score in their input order, cut to three
  entries for the type \<^verbatim>\<open>comprehensive\<close> and to two otherwise; each entry has the title, the
  URL and the score of its source and the reasoning \<^verbatim>\<open>Score: \<close> followed by the score to two
  decimals. The code sorts, cuts and then filters; the result is the same.
\<close>

theorem parse_llm_decision_priority_urls:
  assumes "needs_enhancement (parse_llm_decision text srcs)" and "srcs \<noteq> []"
  shows "priority_urls (parse_llm_decision text srcs)
           = claimed_priority_urls (enhancement_type (parse_llm_decision text srcs)) srcs
         \<and> sorted_wrt (\<lambda>a b. priority_score b \<le> priority_score a)
              (priority_urls (parse_llm_decision text srcs))
         \<and> list_all (\<lambda>p. float_lit (3 / 10) < priority_score p)
              (priority_urls (parse_llm_decision text srcs))
         \<and> length (priority_urls (parse_llm_decision text srcs))
              \<le> (if enhancement_type (parse_llm_decision text srcs) = ''comprehensive''
                  then 3 else 2)"
proof -
  have eq: "priority_urls (parse_llm_decision text srcs)
              = claimed_priority_urls (enhancement_type (parse_llm_decision text srcs)) srcs"
    using assms
    by (simp add: parse_llm_decision_def Let_def claimed_priority_urls_def priority_selection)
  show ?thesis
    unfolding eq by (intro conjI refl claimed_priority_urls_shape)
qed

lemma example_reply_tests:
  "lower ''Decision: ENHANCE'' = ''decision: enhance''"
  "contains ''enhance'' ''decision: enhance''"
  "\<not> contains ''no_enhance'' ''decision: enhance''"
  "\<not> contains ''selective'' ''decision: enhance''"
  "\<not> contains ''comprehensive'' ''decision: enhance''"
  by code_simp+

lemma example_scores:
  "calculate_url_priority \<lparr>title = ''Annual Report'', url = ''https://google.org/a'', snippet = ''''\<rparr>
     = 64851834634135144 / 2 ^ 56"
  "calculate_url_priority \<lparr>title = ''Blog'', url = ''https://example.com'', snippet = ''''\<rparr>
     = 7205759403792794 / 2 ^ 56"
  "calculate_url_priority \<lparr>title = ''A Study'', url = ''https://x.org'', snippet = ''''\<rparr>
     = 50440315826549560 / 2 ^ 56"
  by code_simp+

lemma example_formats:
  "format_2f (8106479329266893 / 9007199254740992) = ''0.90''"
  "format_2f (6305039478318695 / 9007199254740992) = ''0.70''"
  by code_simp+

theorem parse_llm_decision_priority_urls_witness:
  "needs_enhancement (parse_llm_decision ''Decision: ENHANCE'' example_sources)
   \<and> example_sources \<noteq> []
   \<and> priority_urls (parse_llm_decision ''Decision: ENHANCE'' example_sources)
       = [\<lparr>pu_title = ''Annual Report'', pu_url = ''https://google.org/a'',
           priority_score = 64851834634135144 / 2 ^ 56, pu_reasoning = ''Score: 0.90''\<rparr>,
          \<lparr>pu_title = ''A Study'', pu_url = ''https://x.org'',
           priority_score = 50440315826549560 / 2 ^ 56, pu_reasoning = ''Score: 0.70''\<rparr>]"
proof -
  have h1: "needs_enhancement (parse_llm_decision ''Decision: ENHANCE'' example_sources)"
    by (simp add: parse_llm_decision_def Let_def example_reply_tests)
  have h2: "example_sources \<noteq> []" by (simp add: example_sources_def)
  have ty: "enhancement_type (parse_llm_decision ''Decision: ENHANCE'' example_sources) = ''selective''"
    by (simp add: parse_llm_decision_def Let_def example_reply_tests)
  have h3: "claimed_priority_urls ''selective'' example_sources
            = [\<lparr>pu_title = ''Annual Report'', pu_url = ''https://google.org/a'',
                priority_score = 64851834634135144 / 2 ^ 56, pu_reasoning = ''Score: 0.90''\<rparr>,
               \<lparr>pu_title = ''A Study'', pu_url = ''https://x.org'',
                priority_score = 50440315826549560 / 2 ^ 56, pu_reasoning = ''Score: 0.70''\<rparr>]"
    unfolding claimed_priority_urls_def example_sources_def sort_reverse_def entry_of_source_def
      float_lit_3_10
    by (simp add: example_scores example_formats)
  show ?thesis
    using parse_llm_decision_priority_urls[OF h1 h2] h1 h2 h3 unfolding ty by simp
qed

section \<open>The reflection node\<close>

lemma lit_values:
  "float_lit (3 / 10) = 5404319552844595 / 2 ^ 54"
  "float_lit (6 / 10) = 5404319552844595 / 2 ^ 53"
  "float_lit (8 / 10) = 3602879701896397 / 2 ^ 52"
  by code_simp+

lemma boost_of_one:
  "py_min (fmul (round_double 1) (float_lit (3 / 10))) (float_lit (8 / 10)) < float_lit (6 / 10)"
  by code_simp

lemma float_of_int_in_range:
  assumes "0 < n" "n \<le> 2 ^ 1023"
  shows "float_of_int n = Inr (round_double (of_int n))"
    and "1 \<le> round_double (of_int n)"
proof -
  have one: "of_int 1 * 2 powi 0 \<le> (of_int n :: rat)" using assms(1) by simp
  have "of_int 1 * 2 powi 0 \<le> round_double (of_int n)"
    by (rule round_double_ge[OF _ _ one]) simp_all
  then show ge1: "1 \<le> round_double (of_int n)" by simp
  have "(of_int n :: rat) \<le> of_int (2 ^ 1023)" using assms(2) by (simp only: of_int_le_iff)
  then have up: "(of_int n :: rat) \<le> of_int 1 * 2 powi 1023" by (simp add: power_int_def)
  have npos: "(0::rat) < of_int n" using assms(1) by simp
  have "round_double (of_int n) \<le> of_int 1 * 2 powi 1023"
    by (rule round_double_le[OF _ _ npos up]) simp_all
  then have "round_double (of_int n) \<le> 2 ^ 1023" by (simp add: power_int_def)
  also have "\<dots> < (2::rat) ^ 1024" by (rule power_strict_increasing) simp_all
  finally have "\<bar>round_double (of_int n)\<bar> < 2 ^ 1024" using ge1 by simp
  then show "float_of_int n = Inr (round_double (of_int n))"
    by (simp add: float_of_int_def Let_def)
qed

lemma boost_threshold:
  assumes "0 < n"
  shows "float_lit (6 / 10) \<le> py_min (fmul (round_double (of_int n)) (float_lit (3 / 10))) (float_lit (8 / 10))
         \<longleftrightarrow> 2 \<le> n"
proof (cases "2 \<le> n")
  case True
  have two: "of_int 1 * 2 powi 1 \<le> (of_int n :: rat)" using True by simp
  have "of_int 1 * 2 powi 1 \<le> round_double (of_int n)"
    by (rule round_double_ge[OF _ _ two]) simp_all
  then have r2: "2 \<le> round_double (of_int n)" by simp
  have "of_int 5404319552844595 * 2 powi (- 53) = 2 * (5404319552844595 / 2 ^ 54 :: rat)"
    by (simp add: power_int_def field_simps)
  also have "\<dots> \<le> round_double (of_int n) * (5404319552844595 / 2 ^ 54)"
    using r2 by (intro mult_right_mono) simp_all
  finally have "of_int 5404319552844595 * 2 powi (- 53)
                  \<le> round_double (round_double (of_int n) * (5404319552844595 / 2 ^ 54))"
    by (intro round_double_ge) simp_all
  then have "float_lit (6 / 10) \<le> fmul (round_double (of_int n)) (float_lit (3 / 10))"
    unfolding fmul_def lit_values by (simp add: power_int_def field_simps)
  moreover have "float_lit (6 / 10) \<le> float_lit (8 / 10)" unfolding lit_values by simp
  ultimately show ?thesis using True by (simp add: py_min_def)
next
  case False
  then have "n = 1" using assms by simp
  then show ?thesis
    using boost_of_one by (simp only: of_int_1) simp
qed

lemma enhanced_reflection_cases:
  "enhanced_reflection state (Inr r) =
     (if enhancement_status state = Some ''completed''
         \<and> 0 < get_default (enhanced_sources_count state) 0
         \<and> \<not> is_sufficient r
      then (case float_of_int (get_default (enhanced_sources_count state) 0) of
              Inl ex \<Rightarrow> Inl ex
            | Inr c \<Rightarrow>
                Inr (if 2 \<le> get_default (enhanced_sources_count state) 0
                     then supplemented r else r))
      else Inr r)"
proof (cases "enhancement_status state = Some ''completed''
               \<and> 0 < get_default (enhanced_sources_count state) 0 \<and> \<not> is_sufficient r")
  case True
  then have pos: "0 < get_default (enhanced_sources_count state) 0" by simp
  have "float_of_int (get_default (enhanced_sources_count state) 0) = Inl OverflowError
      \<or> float_of_int (get_default (enhanced_sources_count state) 0)
          = Inr (round_double (of_int (get_default (enhanced_sources_count state) 0)))"
    by (simp add: float_of_int_def Let_def)
  then show ?thesis
    using True boost_threshold[OF pos]
    by (auto simp add: enhanced_reflection_def Let_def supplemented_def)
next
  case False
  then show ?thesis by (auto simp add: enhanced_reflection_def Let_def)
qed

text \<open>
  Claim C3: \<^verbatim>\<open>enhanced_reflection\<close> sets \<^verbatim>\<open>is_sufficient\<close> to true and replaces
  \<^verbatim>\<open>knowledge_gap\<close> by the fixed message exactly when the status is \<^verbatim>\<open>completed\<close>, the count
  is positive, the base verdict is insufficient and \<open>min(count * 0.3, 0.8) >= 0.6\<close>, which in
  double arithmetic is the same as a count of at least two; in every other case it returns
  the base result with every field as it was. \<^verbatim>\<open>enhanced_sources_count\<close> is written by
  \<^verbatim>\<open>content_enhancement_analysis\<close> alone, as the number of crawled results, at most three; the
  theorem covers every count up to \<open>2\<^sup>1\<^sup>0\<^sup>2\<^sup>3\<close>, which Python converts to a float for the
  product \<open>count * 0.3\<close>.
\<close>

theorem enhanced_reflection_override:
  assumes "get_default (enhanced_sources_count state) 0 \<le> 2 ^ 1023"
  shows "enhanced_reflection state (Inr r) =
           Inr (if enhancement_status state = Some ''completed''
                   \<and> 0 < get_default (enhanced_sources_count state) 0
                   \<and> \<not> is_sufficient r
                   \<and> 2 \<le> get_default (enhanced_sources_count state) 0
                then supplemented r else r)
         \<and> (0 < get_default (enhanced_sources_count state) 0 \<longrightarrow>
              (float_lit (6 / 10)
                 \<le> py_min (fmul (round_double (of_int (get_default (enhanced_sources_count state) 0)))
                              (float_lit (3 / 10)))
                      (float_lit (8 / 10))
               \<longleftrightarrow> 2 \<le> get_default (enhanced_sources_count state) 0))"
proof -
  let ?n = "get_default (enhanced_sources_count state) 0"
  let ?gate = "enhancement_status state = Some ''completed'' \<and> 0 < ?n \<and> \<not> is_sufficient r"
  have run: "enhanced_reflection state (Inr r) =
          Inr (if ?gate \<and> 2 \<le> ?n then supplemented r else r)"
  proof (cases ?gate)
    case True
    then have pos: "0 < ?n" by simp
    show ?thesis
      using True float_of_int_in_range(1)[OF pos assms] by (simp add: enhanced_reflection_cases)
  next
    case False
    then show ?thesis by (auto simp add: enhanced_reflection_cases)
  qed
  show ?thesis using run boost_threshold[of ?n] by simp
qed

theorem enhanced_reflection_override_witness:
  "get_default (enhanced_sources_count
      (empty_state\<lparr>enhancement_status := Some ''completed'', enhanced_sources_count := Some 3\<rparr>)) 0 \<le> 2 ^ 1023
   \<and> enhanced_reflection
       (empty_state\<lparr>enhancement_status := Some ''completed'', enhanced_sources_count := Some 3\<rparr>)
       (Inr \<lparr>is_sufficient = False, knowledge_gap = ''more data needed''\<rparr>)
     = Inr \<lparr>is_sufficient = True,
            knowledge_gap = ''Content has been sufficiently supplemented through deep crawling''\<rparr>
   \<and> enhanced_reflection
       (empty_state\<lparr>enhancement_status := Some ''completed'', enhanced_sources_count := Some 1\<rparr>)
       (Inr \<lparr>is_sufficient = False, knowledge_gap = ''more data needed''\<rparr>)
     = Inr \<lparr>is_sufficient = False, knowledge_gap = ''more data needed''\<rparr>"
proof -
  let ?s3 = "empty_state\<lparr>enhancement_status := Some ''completed'', enhanced_sources_count := Some 3\<rparr>"
  let ?s1 = "empty_state\<lparr>enhancement_status := Some ''completed'', enhanced_sources_count := Some 1\<rparr>"
  let ?r = "\<lparr>is_sufficient = False, knowledge_gap = ''more data needed''\<rparr>"
  have n3: "get_default (enhanced_sources_count ?s3) 0 = 3"
    and n1: "get_default (enhanced_sources_count ?s1) 0 = 1"
    and st: "enhancement_status ?s3 = Some ''completed''" "enhancement_status ?s1 = Some ''completed''"
    by (simp_all add: get_default_def empty_state_def)
  have h3: "get_default (enhanced_sources_count ?s3) 0 \<le> 2 ^ 1023"
    and h1: "get_default (enhanced_sources_count ?s1) 0 \<le> 2 ^ 1023"
    unfolding n3 n1 by simp_all
  have "enhanced_reflection ?s3 (Inr ?r) =
          Inr (if enhancement_status ?s3 = Some ''completed''
                  \<and> 0 < get_default (enhanced_sources_count ?s3) 0
                  \<and> \<not> is_sufficient ?r
                  \<and> 2 \<le> get_default (enhanced_sources_count ?s3) 0
               then supplemented ?r else ?r)"
    using enhanced_reflection_override[OF h3, of ?r] by blast
  then have r3: "enhanced_reflection ?s3 (Inr ?r)
      = Inr \<lparr>is_sufficient = True,
             knowledge_gap = ''Content has been sufficiently supplemented through deep crawling''\<rparr>"
    unfolding n3 st by (simp add: supplemented_def)
  have "enhanced_reflection ?s1 (Inr ?r) =
          Inr (if enhancement_status ?s1 = Some ''completed''
                  \<and> 0 < get_default (enhanced_sources_count ?s1) 0
                  \<and> \<not> is_sufficient ?r
                  \<and> 2 \<le> get_default (enhanced_sources_count ?s1) 0
               then supplemented ?r else ?r)"
    using enhanced_reflection_override[OF h1, of ?r] by blast
  then have r1: "enhanced_reflection ?s1 (Inr ?r) = Inr ?r"
    unfolding n1 st by simp
  show ?thesis using h3 r3 r1 by (intro conjI)
qed

section \<open>The gate and the parser of the reply\<close>

text \<open>
  Claim C5: \<^verbatim>\<open>should_enhance_content\<close> returns \<^verbatim>\<open>analyze_enhancement_need\<close> exactly when the
  crawl credential is configured, \<^verbatim>\<open>research_loop_count\<close> is at least one, the status is
  neither \<^verbatim>\<open>completed\<close> nor \<^verbatim>\<open>skipped\<close>, and there is at least one finding; otherwise it
  returns \<^verbatim>\<open>continue_without_enhancement\<close>. The tests are made in this order and the first
  one that fails decides; in particular without the credential the answer does not depend on
  the state.
\<close>

theorem should_enhance_content_iff:
  "should_enhance_content e state =
     (if credential_configured e
         \<and> 1 \<le> get_default (research_loop_count state) 0
         \<and> enhancement_status state \<noteq> Some ''completed''
         \<and> enhancement_status state \<noteq> Some ''skipped''
         \<and> get_default (web_research_result state) [] \<noteq> []
      then ''analyze_enhancement_need'' else ''continue_without_enhancement'')
   \<and> (\<not> credential_configured e \<longrightarrow>
        should_enhance_content e state = ''continue_without_enhancement'')
   \<and> (get_default (research_loop_count state) 0 = 0 \<longrightarrow>
        should_enhance_content e state = ''continue_without_enhancement'')"
  by (auto simp add: should_enhance_content_def Let_def)

theorem should_enhance_content_iff_witness:
  "\<not> credential_configured quiet_env
   \<and> should_enhance_content quiet_env
        (example_state\<lparr>research_loop_count := Some 1\<rparr>) = ''continue_without_enhancement''
   \<and> get_default (research_loop_count example_state) 0 = 0
   \<and> should_enhance_content (quiet_env\<lparr>getenv_FIRECRAWL_API_KEY := Some ''fc-key''\<rparr>)
        example_state = ''continue_without_enhancement''
   \<and> should_enhance_content (quiet_env\<lparr>getenv_FIRECRAWL_API_KEY := Some ''fc-key''\<rparr>)
        (example_state\<lparr>research_loop_count := Some 1\<rparr>) = ''analyze_enhancement_need''"
proof -
  have a: "\<not> credential_configured quiet_env"
    by (simp add: credential_configured_def quiet_env_def)
  have b: "get_default (research_loop_count example_state) 0 = 0"
    by (simp add: example_state_def empty_state_def get_default_def)
  have c: "credential_configured (quiet_env\<lparr>getenv_FIRECRAWL_API_KEY := Some ''fc-key''\<rparr>)"
    by (simp add: credential_configured_def)
  have d: "get_default (research_loop_count (example_state\<lparr>research_loop_count := Some 1\<rparr>)) 0 = 1"
    "enhancement_status (example_state\<lparr>research_loop_count := Some 1\<rparr>) = None"
    "get_default (web_research_result (example_state\<lparr>research_loop_count := Some 1\<rparr>)) [] \<noteq> []"
    by (simp_all add: example_state_def empty_state_def get_default_def)
  show ?thesis
    using should_enhance_content_iff[of quiet_env "example_state\<lparr>research_loop_count := Some 1\<rparr>"]
      should_enhance_content_iff[of "quiet_env\<lparr>getenv_FIRECRAWL_API_KEY := Some ''fc-key''\<rparr>" example_state]
      should_enhance_content_iff[of "quiet_env\<lparr>getenv_FIRECRAWL_API_KEY := Some ''fc-key''\<rparr>"
        "example_state\<lparr>research_loop_count := Some 1\<rparr>"]
      a b c d
    by simp
qed

text \<open>
  Claim C6 says that \<^verbatim>\<open>confidence_score\<close> lies in \<open>[0, 1]\<close>, as the comment on the field of
  the dataclass does (\<^verbatim>\<open># 0-1\<close>). The parser takes any digit, dot, digit after
  \<^verbatim>\<open>confidence\<close> and does not clamp it: for the reply \<^verbatim>\<open>Confidence: 8.5/10\<close> the score is
  \<open>8.5\<close>.
\<close>

theorem parse_llm_decision_confidence_above_one:
  "confidence_score (parse_llm_decision ''Confidence: 8.5/10'' []) = 17 / 2
   \<and> 1 < confidence_score (parse_llm_decision ''Confidence: 8.5/10'' [])"
  by code_simp

text \<open>When the pattern does not occur the score is the default \<open>0.5\<close>.\<close>

lemma parse_llm_decision_confidence_default:
  "search_confidence (lower text) = None \<Longrightarrow>
     confidence_score (parse_llm_decision text srcs) = float_lit (5 / 10)"
  by (simp add: parse_llm_decision_def Let_def)

text \<open>\<open>contains\<close> is the substring test.\<close>

lemma contains_iff: "contains w s \<longleftrightarrow> (\<exists>p q. s = p @ w @ q)"
proof (induction s)
  case Nil
  then show ?case by simp
next
  case (Cons c cs)
  show ?case
  proof
    assume "contains w (c # cs)"
    then consider "prefix w (c # cs)" | "contains w cs" by auto
    then show "\<exists>p q. c # cs = p @ w @ q"
    proof cases
      case 1
      then obtain q where "c # cs = w @ q" by (auto simp: prefix_def)
      then have "c # cs = [] @ w @ q" by simp
      then show ?thesis by blast
    next
      case 2
      then obtain p q where "cs = p @ w @ q" using Cons.IH by blast
      then have "c # cs = (c # p) @ w @ q" by simp
      then show ?thesis by blast
    qed
  next
    assume "\<exists>p q. c # cs = p @ w @ q"
    then obtain p q where pq: "c # cs = p @ w @ q" by blast
    show "contains w (c # cs)"
    proof (cases p)
      case Nil
      then have "prefix w (c # cs)" using pq by (simp add: prefix_def)
      then show ?thesis by simp
    next
      case (Cons a p')
      then have "cs = p' @ w @ q" using pq by simp
      then have "contains w cs" using Cons.IH by blast
      then show ?thesis by simp
    qed
  qed
qed

lemma lower_keywords:
  "lower ''Decision: ENHANCE'' = ''decision: '' @ ''enhance''"
  "lower ''NO_ENHANCE'' = ''no_enhance''"
  by code_simp+

text \<open>
  Claim C7, as stated: \<^verbatim>\<open>needs_enhancement\<close> is true exactly when the text has the token
  \<^verbatim>\<open>enhance\<close> and does not contain \<^verbatim>\<open>no_enhance\<close>. The code tests for a substring, not for a
  token: the reply \<^verbatim>\<open>Enhancement Type: none\<close> has no token \<^verbatim>\<open>enhance\<close>, yet
  \<^verbatim>\<open>needs_enhancement\<close> is true.
\<close>

theorem parse_llm_decision_needs_enhancement_counterexample:
  "needs_enhancement (parse_llm_decision ''Enhancement Type: none'' [])
     \<noteq> (has_token ''enhance'' (lower ''Enhancement Type: none'')
         \<and> \<not> contains ''no_enhance'' (lower ''Enhancement Type: none''))"
  by code_simp

text \<open>
  Claim C7, amended: \<^verbatim>\<open>needs_enhancement\<close> is true exactly when the lower-cased text
  contains \<^verbatim>\<open>enhance\<close> as a substring and does not contain \<^verbatim>\<open>no_enhance\<close>. In particular a
  text that contains \<^verbatim>\<open>Decision: ENHANCE\<close> and no \<^verbatim>\<open>no_enhance\<close> gives true, and a text that
  contains \<^verbatim>\<open>NO_ENHANCE\<close> gives false.
\<close>

theorem parse_llm_decision_needs_enhancement:
  "(needs_enhancement (parse_llm_decision text srcs)
      \<longleftrightarrow> (\<exists>p q. lower text = p @ ''enhance'' @ q) \<and> \<not> (\<exists>p q. lower text = p @ ''no_enhance'' @ q))
   \<and> ((\<exists>p q. text = p @ ''Decision: ENHANCE'' @ q) \<and> \<not> (\<exists>p q. lower text = p @ ''no_enhance'' @ q)
        \<longrightarrow> needs_enhancement (parse_llm_decision text srcs))
   \<and> ((\<exists>p q. text = p @ ''NO_ENHANCE'' @ q) \<longrightarrow> \<not> needs_enhancement (parse_llm_decision text srcs))"
proof -
  have iff: "needs_enhancement (parse_llm_decision text srcs)
      \<longleftrightarrow> (\<exists>p q. lower text = p @ ''enhance'' @ q) \<and> \<not> (\<exists>p q. lower text = p @ ''no_enhance'' @ q)"
    by (simp add: parse_llm_decision_def Let_def contains_iff)
  have yes: "\<exists>p q. lower text = p @ ''enhance'' @ q" if "\<exists>p q. text = p @ ''Decision: ENHANCE'' @ q"
  proof -
    from that obtain p q where "text = p @ ''Decision: ENHANCE'' @ q" by blast
    then have "lower text = (lower p @ ''decision: '') @ ''enhance'' @ lower q"
      using lower_keywords(1) by (simp add: lower_def)
    then show ?thesis by blast
  qed
  have no: "\<exists>p q. lower text = p @ ''no_enhance'' @ q" if "\<exists>p q. text = p @ ''NO_ENHANCE'' @ q"
  proof -
    from that obtain p q where "text = p @ ''NO_ENHANCE'' @ q" by blast
    then have "lower text = lower p @ ''no_enhance'' @ lower q"
      using lower_keywords(2) by (simp add: lower_def)
    then show ?thesis by blast
  qed
  show ?thesis using iff yes no by blast
qed

theorem parse_llm_decision_needs_enhancement_witness:
  "needs_enhancement (parse_llm_decision ''Decision: ENHANCE'' [])
   \<and> \<not> needs_enhancement (parse_llm_decision ''Decision: NO_ENHANCE'' [])"
proof -
  have a: "\<exists>p q. ''Decision: ENHANCE'' = p @ ''Decision: ENHANCE'' @ q"
    by (rule exI[of _ "[]"], rule exI[of _ "[]"]) simp
  have "\<not> contains ''no_enhance'' (lower ''Decision: ENHANCE'')" by code_simp
  then have b: "\<not> (\<exists>p q. lower ''Decision: ENHANCE'' = p @ ''no_enhance'' @ q)"
    unfolding contains_iff .
  have c: "\<exists>p q. ''Decision: NO_ENHANCE'' = p @ ''NO_ENHANCE'' @ q"
    by (rule exI[of _ "''Decision: ''"], rule exI[of _ "[]"]) simp
  show ?thesis
    using parse_llm_decision_needs_enhancement[of "''Decision: ENHANCE''" "[]"]
      parse_llm_decision_needs_enhancement[of "''Decision: NO_ENHANCE''" "[]"] a b c
    by blast
qed

section \<open>The analysis node\<close>

text \<open>The updates that the body of the node can return, and the updates of the node.\<close>

lemma analysis_body_Inr:
  assumes "analysis_body e st = Inr u"
  obtains topic app d where
    "research_topic_of e st = Inr topic"
    "decision_maker e = Inr app"
    "analyze_enhancement_need e topic (get_default (web_research_result st) [])
       (grounding_sources_of st) = Inr d"
    "(\<not> needs_enhancement d
        \<and> u = [''enhancement_decision'' \<mapsto> VDecision d, ''enhancement_status'' \<mapsto> VStr ''skipped''])
     \<or> (needs_enhancement d \<and> \<not> app
        \<and> u = [''enhancement_decision'' \<mapsto> VDecision d,
               ''enhancement_status'' \<mapsto> VStr ''skipped_no_api''])
     \<or> (needs_enhancement d \<and> app \<and> crawl e 0 (priority_urls d) [] = Inr []
        \<and> u = [''enhancement_decision'' \<mapsto> VDecision d, ''enhancement_status'' \<mapsto> VStr ''failed''])
     \<or> (\<exists>rs. needs_enhancement d \<and> app \<and> crawl e 0 (priority_urls d) [] = Inr rs \<and> rs \<noteq> []
        \<and> u = [''enhancement_decision'' \<mapsto> VDecision d,
               ''enhanced_content_results'' \<mapsto> VResults rs,
               ''web_research_result'' \<mapsto> VStrList (map format_enhanced_content rs),
               ''enhancement_status'' \<mapsto> VStr ''completed'',
               ''enhanced_sources_count'' \<mapsto> VInt (int (length rs))])"
  using assms unfolding analysis_body_def Let_def
  by (auto split: sum.splits if_splits)

lemma node_Inr:
  assumes "content_enhancement_analysis e st = Inr u"
  shows "analysis_body e st = Inr u \<or> (\<exists>m. analysis_body e st = Inl (PyException m) \<and> u = error_update m)"
  using assms unfolding content_enhancement_analysis_def error_update_def Let_def
  by (auto split: sum.splits py_exn.splits option.splits)

lemma example_topic: "research_topic_of e example_state = Inr ''solid state batteries''"
  by (simp add: research_topic_of_def example_state_def empty_state_def get_default_def Let_def)

lemma example_grounding:
  "grounding_sources_of example_state = [\<lparr>title = ''A Study'', url = ''https://x.org'', snippet = ''''\<rparr>]"
  by (simp add: grounding_sources_of_def example_state_def empty_state_def get_default_def last_n_def)

lemma example_findings:
  "get_default (web_research_result example_state) [] = [''Solid state cells are studied.'']"
  by (simp add: example_state_def empty_state_def get_default_def)

lemma example_no_confidence: "search_confidence ''decision: enhance'' = None"
  by code_simp

lemma example_parse:
  "parse_llm_decision ''Decision: ENHANCE''
     [\<lparr>title = ''A Study'', url = ''https://x.org'', snippet = ''''\<rparr>] = example_decision"
  unfolding parse_llm_decision_def Let_def example_decision_def sort_reverse_def priority_entry_def
    float_lit_3_10
  by (simp add: example_reply_tests example_scores example_formats example_no_confidence)





lemma example_block:
  "format_enhanced_content example_result =
     [CHR 0x0A, CHR 0x0A] @ ''## Deep Content Enhancement - A Study''
     @ [CHR 0x0A, CHR 0x0A] @ ''Source: https://x.org''
     @ [CHR 0x0A] @ ''Content Length: 7 characters''
     @ [CHR 0x0A, CHR 0x0A] @ ''# Cells'' @ [CHR 0x0A, CHR 0x0A] @ ''---'' @ [CHR 0x0A]"
  by code_simp

lemma analysis_status:
  assumes "content_enhancement_analysis e st = Inr u"
  shows "u ''enhancement_status'' = Some (VStr ''skipped'')
       \<or> u ''enhancement_status'' = Some (VStr ''skipped_no_api'')
       \<or> u ''enhancement_status'' = Some (VStr ''failed'')
       \<or> u ''enhancement_status'' = Some (VStr ''completed'')
       \<or> u ''enhancement_status'' = Some (VStr ''error'')"
proof -
  from node_Inr[OF assms] show ?thesis
  proof
    assume "analysis_body e st = Inr u"
    then show ?thesis by (rule analysis_body_Inr) auto
  next
    assume "\<exists>m. analysis_body e st = Inl (PyException m) \<and> u = error_update m"
    then show ?thesis by (auto simp: error_update_def)
  qed
qed

text \<open>
  Claim C10: an update whose \<^verbatim>\<open>enhancement_status\<close> is not \<^verbatim>\<open>completed\<close>, that is
  \<^verbatim>\<open>skipped\<close>, \<^verbatim>\<open>skipped_no_api\<close>, \<^verbatim>\<open>failed\<close> or \<^verbatim>\<open>error\<close>, has none of the keys
  \<^verbatim>\<open>web_research_result\<close>, \<^verbatim>\<open>enhanced_content_results\<close> and \<^verbatim>\<open>enhanced_sources_count\<close>;
  merging it into a dict \<open>s\<close>, the keys of the update overriding, leaves the findings of \<open>s\<close>
  as they are.
\<close>

theorem analysis_not_completed_frame:
  assumes "content_enhancement_analysis e st = Inr u"
    and "u ''enhancement_status'' \<noteq> Some (VStr ''completed'')"
  shows "u ''web_research_result'' = None
       \<and> u ''enhanced_content_results'' = None
       \<and> u ''enhanced_sources_count'' = None
       \<and> (u ''enhancement_status'' = Some (VStr ''skipped'')
          \<or> u ''enhancement_status'' = Some (VStr ''skipped_no_api'')
          \<or> u ''enhancement_status'' = Some (VStr ''failed'')
          \<or> u ''enhancement_status'' = Some (VStr ''error''))
       \<and> (s ++ u) ''web_research_result'' = s ''web_research_result''"
proof -
  have keys: "u ''web_research_result'' = None
       \<and> u ''enhanced_content_results'' = None
       \<and> u ''enhanced_sources_count'' = None"
    using node_Inr[OF assms(1)]
  proof
    assume "analysis_body e st = Inr u"
    then show ?thesis by (rule analysis_body_Inr) (use assms(2) in auto)
  next
    assume "\<exists>m. analysis_body e st = Inl (PyException m) \<and> u = error_update m"
    then show ?thesis by (auto simp: error_update_def)
  qed
  then have "(s ++ u) ''web_research_result'' = s ''web_research_result''"
    by (simp add: map_add_def)
  moreover have "u ''enhancement_status'' = Some (VStr ''skipped'')
          \<or> u ''enhancement_status'' = Some (VStr ''skipped_no_api'')
          \<or> u ''enhancement_status'' = Some (VStr ''failed'')
          \<or> u ''enhancement_status'' = Some (VStr ''error'')"
    using analysis_status[OF assms(1)] assms(2) by blast
  ultimately show ?thesis using keys by (intro conjI) simp_all
qed

lemma quiet_run:
  "content_enhancement_analysis quiet_env example_state =
     Inr [''enhancement_decision'' \<mapsto>
            VDecision \<lparr>needs_enhancement = False, priority_urls = [], reasoning = [],
                       confidence_score = float_lit (5 / 10), enhancement_type = ''none''\<rparr>,
          ''enhancement_status'' \<mapsto> VStr ''skipped'']"
  by (simp add: content_enhancement_analysis_def analysis_body_def Let_def example_topic
      analyze_enhancement_need_def quiet_env_def parse_llm_decision_def lower_def)

theorem analysis_not_completed_frame_witness:
  "content_enhancement_analysis quiet_env example_state =
     Inr [''enhancement_decision'' \<mapsto>
            VDecision \<lparr>needs_enhancement = False, priority_urls = [], reasoning = [],
                       confidence_score = float_lit (5 / 10), enhancement_type = ''none''\<rparr>,
          ''enhancement_status'' \<mapsto> VStr ''skipped'']
   \<and> [''enhancement_decision'' \<mapsto>
            VDecision \<lparr>needs_enhancement = False, priority_urls = [], reasoning = [],
                       confidence_score = float_lit (5 / 10), enhancement_type = ''none''\<rparr>,
          ''enhancement_status'' \<mapsto> VStr ''skipped''] ''web_research_result'' = None"
proof -
  let ?u = "[''enhancement_decision'' \<mapsto>
            VDecision \<lparr>needs_enhancement = False, priority_urls = [], reasoning = [],
                       confidence_score = float_lit (5 / 10), enhancement_type = ''none''\<rparr>,
          ''enhancement_status'' \<mapsto> VStr ''skipped'']"
  have ne: "?u ''enhancement_status'' \<noteq> Some (VStr ''completed'')" by simp
  show ?thesis
    using analysis_not_completed_frame[OF quiet_run ne] quiet_run by blast
qed

text \<open>
  Claim C4, as stated: the node never propagates an exception. It does in two ways. The
  handler is \<^verbatim>\<open>except Exception\<close>, so an exception that is not an \<^verbatim>\<open>Exception\<close>, such as a
  \<^verbatim>\<open>KeyboardInterrupt\<close> during the call of the language model, leaves the node. And the
  handler itself prints the error message before it returns: when the language model fails
  and that \<^verbatim>\<open>print\<close> raises, on a standard output that cannot encode the line, the exception
  of the \<^verbatim>\<open>print\<close> leaves the node.
\<close>

theorem analysis_propagates_base_exception:
  "content_enhancement_analysis interrupted_env example_state
     = Inl (PyBaseException ''KeyboardInterrupt'')
   \<and> content_enhancement_analysis unencodable_env example_state
     = Inl (PyException ''UnicodeEncodeError'')"
  by (simp add: content_enhancement_analysis_def analysis_body_def Let_def example_topic
      analyze_enhancement_need_def interrupted_env_def unencodable_env_def failing_env_def
      quiet_env_def)

text \<open>
  Claim C4, amended: when a step of the node raises an instance of \<^verbatim>\<open>Exception\<close>, and in
  particular when the call of the language model does, and the handler's \<^verbatim>\<open>str(e)\<close> and
  \<^verbatim>\<open>print\<close> of the error message return, the node returns the update with
  \<^verbatim>\<open>enhancement_status\<close> \<^verbatim>\<open>error\<close> and \<^verbatim>\<open>enhancement_error\<close> the message made of the fixed
  prefix and the text of the exception. The node propagates an exception in three cases only:
  a step raised an exception that is not an \<^verbatim>\<open>Exception\<close>; \<^verbatim>\<open>str(e)\<close> raised in the handler;
  the \<^verbatim>\<open>print\<close> of the handler raised.
\<close>

theorem analysis_catches_exceptions:
  "(analysis_body e st = Inl (PyException m)
      \<and> print_error e (''Content enhancement analysis node exception: '' @ m) = None \<longrightarrow>
        content_enhancement_analysis e st =
          Inr [''enhancement_status'' \<mapsto> VStr ''error'',
               ''enhancement_error'' \<mapsto>
                  VStr (''Content enhancement analysis node exception: '' @ m)])
   \<and> (research_topic_of e st = Inr topic \<and> decision_maker e = Inr app
        \<and> llm_invoke e (build_analysis_prompt topic (get_default (web_research_result st) [])
             (grounding_sources_of st)) = Inl (PyException m)
        \<and> print_error e (''Content enhancement analysis node exception: '' @ m) = None \<longrightarrow>
        content_enhancement_analysis e st =
          Inr [''enhancement_status'' \<mapsto> VStr ''error'',
               ''enhancement_error'' \<mapsto>
                  VStr (''Content enhancement analysis node exception: '' @ m)])
   \<and> (content_enhancement_analysis e st = Inl ex \<longrightarrow>
        (\<exists>b. ex = PyBaseException b \<and> analysis_body e st = Inl (PyBaseException b))
        \<or> analysis_body e st = Inl (PyUnprintable ex)
        \<or> (\<exists>m'. analysis_body e st = Inl (PyException m')
              \<and> print_error e (''Content enhancement analysis node exception: '' @ m') = Some ex))"
  by (auto simp add: content_enhancement_analysis_def analysis_body_def
      analyze_enhancement_need_def Let_def split: sum.splits py_exn.splits option.splits)

theorem analysis_catches_exceptions_witness:
  "analysis_body quiet_env empty_state = Inl (PyException ([CHR 0x27] @ ''messages'' @ [CHR 0x27]))
   \<and> print_error quiet_env
        (''Content enhancement analysis node exception: '' @ [CHR 0x27] @ ''messages'' @ [CHR 0x27])
       = None
   \<and> content_enhancement_analysis quiet_env empty_state =
       Inr [''enhancement_status'' \<mapsto> VStr ''error'',
            ''enhancement_error'' \<mapsto>
               VStr (''Content enhancement analysis node exception: ''
                     @ [CHR 0x27] @ ''messages'' @ [CHR 0x27])]"
proof -
  have body: "analysis_body quiet_env empty_state
                = Inl (PyException ([CHR 0x27] @ ''messages'' @ [CHR 0x27]))"
    by (simp add: analysis_body_def research_topic_of_def topic_from_messages_def KeyError_def
        empty_state_def get_default_def Let_def)
  have quiet: "print_error quiet_env
        (''Content enhancement analysis node exception: '' @ [CHR 0x27] @ ''messages'' @ [CHR 0x27])
       = None"
    by (simp add: quiet_env_def)
  show ?thesis
    using analysis_catches_exceptions[of quiet_env empty_state "[CHR 0x27] @ ''messages'' @ [CHR 0x27]"]
      body quiet
    by blast
qed

text \<open>
  Claim C8, as stated: every update has the key \<^verbatim>\<open>enhancement_decision\<close>, also one with the
  status \<^verbatim>\<open>error\<close>. When the language model fails there is no decision, and the update of the
  handler has the keys \<^verbatim>\<open>enhancement_status\<close> and \<^verbatim>\<open>enhancement_error\<close> only.
\<close>

theorem analysis_error_update_has_no_decision:
  "content_enhancement_analysis failing_env example_state
     = Inr (error_update ''503 Service Unavailable'')
   \<and> error_update ''503 Service Unavailable'' ''enhancement_decision'' = None"
  by (simp add: content_enhancement_analysis_def analysis_body_def Let_def example_topic
      analyze_enhancement_need_def failing_env_def quiet_env_def error_update_def)

text \<open>
  Claim C8, amended: an update whose status is not \<^verbatim>\<open>error\<close>, that is \<^verbatim>\<open>skipped\<close>,
  \<^verbatim>\<open>skipped_no_api\<close>, \<^verbatim>\<open>failed\<close> or \<^verbatim>\<open>completed\<close>, has the key \<^verbatim>\<open>enhancement_decision\<close>
  with the fields of the decision that the analysis returned; an update with the status
  \<^verbatim>\<open>error\<close> is the update of the handler and has no such key.
\<close>

theorem analysis_records_decision:
  assumes "content_enhancement_analysis e st = Inr u"
  shows "(u ''enhancement_status'' = Some (VStr ''error'')
          \<and> u ''enhancement_decision'' = None
          \<and> (\<exists>m. u = error_update m))
       \<or> (u ''enhancement_status'' \<noteq> Some (VStr ''error'')
          \<and> (\<exists>topic d. research_topic_of e st = Inr topic
                \<and> analyze_enhancement_need e topic (get_default (web_research_result st) [])
                     (grounding_sources_of st) = Inr d
                \<and> u ''enhancement_decision'' = Some (VDecision d)))"
proof -
  from node_Inr[OF assms] show ?thesis
  proof
    assume "analysis_body e st = Inr u"
    then show ?thesis by (rule analysis_body_Inr) auto
  next
    assume "\<exists>m. analysis_body e st = Inl (PyException m) \<and> u = error_update m"
    then show ?thesis by (auto simp: error_update_def)
  qed
qed

lemma example_needs: "needs_enhancement example_decision"
  by (simp add: example_decision_def)

lemma enhance_run:
  "content_enhancement_analysis enhance_env example_state =
     Inr [''enhancement_decision'' \<mapsto> VDecision example_decision,
          ''enhancement_status'' \<mapsto> VStr ''skipped_no_api'']"
  by (simp add: content_enhancement_analysis_def analysis_body_def Let_def example_topic
      analyze_enhancement_need_def enhance_env_def quiet_env_def example_grounding example_parse
      example_needs)

theorem analysis_records_decision_witness:
  "content_enhancement_analysis enhance_env example_state =
     Inr [''enhancement_decision'' \<mapsto> VDecision example_decision,
          ''enhancement_status'' \<mapsto> VStr ''skipped_no_api'']
   \<and> [''enhancement_decision'' \<mapsto> VDecision example_decision,
       ''enhancement_status'' \<mapsto> VStr ''skipped_no_api''] ''enhancement_decision''
      = Some (VDecision example_decision)"
  using analysis_records_decision[OF enhance_run] enhance_run by simp

end
